theory Spec2Isabelle
  imports Complex_Main
begin

section \<open>The table store\<close>

text \<open>
  Every table of the application is a CSV file read whole with \<open>pd.read_csv\<close> and
  written whole with \<open>to_csv\<close>. A file is missing, present but unreadable (the read
  raises), or a list of typed rows. CSV type inference is not modelled: a column holds
  the values that were written to it. Instants are naive datetimes, counted in
  microseconds; every \<open>get_current_time()\<close> of one operation returns the instant
  \<open>now\<close> that the operation is given.
\<close>

type_synonym time = int

datatype 'a csv_file = Missing | Unreadable | Table "'a list"

fun file_exists :: "'a csv_file \<Rightarrow> bool" where
  "file_exists Missing = False"
| "file_exists Unreadable = True"
| "file_exists (Table rows) = True"

fun read_csv :: "'a csv_file \<Rightarrow> 'a list option" where
  "read_csv Missing = None"
| "read_csv Unreadable = None"
| "read_csv (Table rows) = Some rows"

record branch =
  br_branch_code :: string
  br_branch_name :: string

record student =
  stu_roll_no :: string
  stu_name :: string
  stu_face_path :: string
  stu_qr_code_path :: string
  stu_registered_on :: time

record session =
  se_session_id :: string
  se_teacher_id :: string
  se_branch_code :: string
  se_start_time :: time
  se_deadline_time :: time
  se_status :: string

record event =
  ev_session_id :: string
  ev_roll_no :: string
  ev_name :: string
  ev_status :: string
  ev_marked_at :: time
  ev_method :: string
  ev_marked_by :: string

record stat =
  stat_roll_no :: string
  stat_name :: string
  present_days :: nat
  absent_days :: nat
  total_days :: nat
  attendance_pct :: rat
  last_present :: "time option"
  last_absent :: "time option"

record branch_files =
  students :: "student csv_file"
  attendance :: "event csv_file"
  stats :: "stat csv_file"
  sessions :: "session csv_file"

record store =
  branches_csv :: "branch csv_file"
  files :: "string \<Rightarrow> branch_files"

definition write_students :: "store \<Rightarrow> string \<Rightarrow> student list \<Rightarrow> store" where
  "write_students st b rows = st\<lparr>files := (files st)(b := (files st b)\<lparr>students := Table rows\<rparr>)\<rparr>"

definition write_attendance :: "store \<Rightarrow> string \<Rightarrow> event list \<Rightarrow> store" where
  "write_attendance st b rows = st\<lparr>files := (files st)(b := (files st b)\<lparr>attendance := Table rows\<rparr>)\<rparr>"

definition write_stats :: "store \<Rightarrow> string \<Rightarrow> stat list \<Rightarrow> store" where
  "write_stats st b rows = st\<lparr>files := (files st)(b := (files st b)\<lparr>stats := Table rows\<rparr>)\<rparr>"

definition write_sessions :: "store \<Rightarrow> string \<Rightarrow> session list \<Rightarrow> store" where
  "write_sessions st b rows = st\<lparr>files := (files st)(b := (files st b)\<lparr>sessions := Table rows\<rparr>)\<rparr>"

section \<open>api/utils.py\<close>

text \<open>\<open>ensure_branch_structure\<close>: each CSV that does not exist is created with its header only.\<close>

definition ensure_branch_structure :: "store \<Rightarrow> string \<Rightarrow> store" where
  "ensure_branch_structure st b =
     (let st1 = (if \<not> file_exists (students (files st b)) then write_students st b [] else st);
          st2 = (if \<not> file_exists (attendance (files st1 b)) then write_attendance st1 b [] else st1);
          st3 = (if \<not> file_exists (stats (files st2 b)) then write_stats st2 b [] else st2)
      in if \<not> file_exists (sessions (files st3 b)) then write_sessions st3 b [] else st3)"

definition validate_branch_exists :: "store \<Rightarrow> string \<Rightarrow> bool" where
  "validate_branch_exists st b =
     (case read_csv (branches_csv st) of
        None \<Rightarrow> False
      | Some branches_df \<Rightarrow> b \<in> set (map br_branch_code branches_df))"

text \<open>
  \<open>generate_session_id\<close>: \<open>strftime\<close> stands for the library call
  \<open>now.strftime("%Y%m%d_%H%M%S")\<close>.
\<close>

definition generate_session_id :: "(time \<Rightarrow> string) \<Rightarrow> time \<Rightarrow> string \<Rightarrow> string" where
  "generate_session_id strftime now b = ''S_'' @ strftime now @ ''_'' @ b"

definition is_session_active :: "time \<Rightarrow> store \<Rightarrow> string \<Rightarrow> string \<Rightarrow> bool" where
  "is_session_active now st sid b =
     (case read_csv (sessions (files st b)) of
        None \<Rightarrow> False
      | Some sessions_df \<Rightarrow>
          (case filter (\<lambda>s. se_session_id s = sid) sessions_df of
             [] \<Rightarrow> False
           | session_data # _ \<Rightarrow>
               if se_status session_data \<noteq> ''open'' then False
               else now < se_deadline_time session_data))"

section \<open>services/data\_service.py\<close>

definition nunique :: "'a list \<Rightarrow> nat" where
  "nunique xs = length (remdups xs)"

text \<open>
  Python's \<open>round(x, 2)\<close> rounds to the nearest hundredth, halves to even. The float is
  modelled by the rational it stands for.
\<close>

definition round_half_even :: "rat \<Rightarrow> int" where
  "round_half_even x =
     (let f = \<lfloor>x\<rfloor>; d = x - of_int f
      in if d < 1 / 2 then f else if 1 / 2 < d then f + 1 else if even f then f else f + 1)"

definition round2 :: "rat \<Rightarrow> rat" where
  "round2 x = of_int (round_half_even (x * 100)) / 100"

fun max_time :: "time list \<Rightarrow> time option" where
  "max_time [] = None"
| "max_time (t # ts) = (case max_time ts of None \<Rightarrow> Some t | Some m \<Rightarrow> Some (max t m))"

definition empty_stat :: "student \<Rightarrow> stat" where
  "empty_stat student =
     \<lparr>stat_roll_no = stu_roll_no student, stat_name = stu_name student,
      present_days = 0, absent_days = 0, total_days = 0, attendance_pct = 0,
      last_present = None, last_absent = None\<rparr>"

definition student_stat :: "event list \<Rightarrow> nat \<Rightarrow> student \<Rightarrow> stat" where
  "student_stat attendance_df total_sessions student =
     (let student_records = filter (\<lambda>e. ev_roll_no e = stu_roll_no student) attendance_df;
          present_records = filter (\<lambda>e. ev_status e = ''Present'') student_records;
          absent_records = filter (\<lambda>e. ev_status e = ''Absent'') student_records;
          present_count = (if student_records = [] then 0 else length present_records);
          absent_count =
            (if student_records = [] then total_sessions
             else length absent_records
                  + (total_sessions - nunique (map ev_session_id student_records)));
          total_days = total_sessions;
          pct = (if 0 < total_days then of_nat present_count / of_nat total_days * 100 else 0)
      in \<lparr>stat_roll_no = stu_roll_no student, stat_name = stu_name student,
          present_days = present_count, absent_days = absent_count, total_days = total_days,
          attendance_pct = round2 pct,
          last_present = max_time (map ev_marked_at present_records),
          last_absent = max_time (map ev_marked_at absent_records)\<rparr>)"

text \<open>
  \<open>update_stats\<close>: a failed read is caught and leaves the stats file as it was. With an
  empty event log every student gets the all-zero record.
\<close>

definition update_stats :: "store \<Rightarrow> string \<Rightarrow> store" where
  "update_stats st b =
     (case read_csv (students (files st b)) of
        None \<Rightarrow> st
      | Some students_df \<Rightarrow>
          (case read_csv (attendance (files st b)) of
             None \<Rightarrow> st
           | Some attendance_df \<Rightarrow>
               if attendance_df = [] then write_stats st b (map empty_stat students_df)
               else write_stats st b
                      (map (student_stat attendance_df (nunique (map ev_session_id attendance_df)))
                           students_df)))"

definition mark_attendance ::
  "time \<Rightarrow> store \<Rightarrow> string \<Rightarrow> string \<Rightarrow> string \<Rightarrow> string \<Rightarrow> string \<Rightarrow> bool \<times> store" where
  "mark_attendance now st sid roll b method marked_by =
     (let st1 = ensure_branch_structure st b
      in (case read_csv (students (files st1 b)) of
            None \<Rightarrow> (False, st1)
          | Some students_df \<Rightarrow>
              (case filter (\<lambda>s. stu_roll_no s = roll) students_df of
                 [] \<Rightarrow> (False, st1)
               | student # _ \<Rightarrow>
                   (case read_csv (attendance (files st1 b)) of
                      None \<Rightarrow> (False, st1)
                    | Some attendance_df \<Rightarrow>
                        (let attendance_record =
                               \<lparr>ev_session_id = sid, ev_roll_no = roll, ev_name = stu_name student,
                                ev_status = ''Present'', ev_marked_at = now, ev_method = method,
                                ev_marked_by = marked_by\<rparr>;
                             st2 = write_attendance st1 b (attendance_df @ [attendance_record])
                         in (True, update_stats st2 b))))))"

definition is_already_marked :: "store \<Rightarrow> string \<Rightarrow> string \<Rightarrow> string \<Rightarrow> bool" where
  "is_already_marked st sid roll b =
     (if \<not> file_exists (attendance (files st b)) then False
      else case read_csv (attendance (files st b)) of
             None \<Rightarrow> False
           | Some attendance_df \<Rightarrow>
               filter (\<lambda>e. ev_session_id e = sid \<and> ev_roll_no e = roll) attendance_df \<noteq> [])"

definition get_attendance_record :: "store \<Rightarrow> string \<Rightarrow> string \<Rightarrow> string \<Rightarrow> event option" where
  "get_attendance_record st sid roll b =
     (case read_csv (attendance (files st b)) of
        None \<Rightarrow> None
      | Some attendance_df \<Rightarrow>
          (case filter (\<lambda>e. ev_session_id e = sid \<and> ev_roll_no e = roll) attendance_df of
             [] \<Rightarrow> None
           | record # _ \<Rightarrow> Some record))"

definition manual_override_attendance ::
  "time \<Rightarrow> store \<Rightarrow> string \<Rightarrow> string \<Rightarrow> string \<Rightarrow> string \<Rightarrow> string \<Rightarrow> string option \<Rightarrow>
   bool \<times> store" where
  "manual_override_attendance now st sid roll b new_status teacher_id reason =
     (case read_csv (students (files st b)) of
        None \<Rightarrow> (False, st)
      | Some students_df \<Rightarrow>
          (case filter (\<lambda>s. stu_roll_no s = roll) students_df of
             [] \<Rightarrow> (False, st)
           | student # _ \<Rightarrow>
               (case read_csv (attendance (files st b)) of
                  None \<Rightarrow> (False, st)
                | Some attendance_df \<Rightarrow>
                    (let existing_mask = (\<lambda>e. ev_session_id e = sid \<and> ev_roll_no e = roll);
                        attendance_df' =
                          (if \<exists>e \<in> set attendance_df. existing_mask e
                           then map (\<lambda>e. if existing_mask e
                                           then e\<lparr>ev_status := new_status, ev_marked_at := now,
                                                  ev_method := ''manual'', ev_marked_by := teacher_id\<rparr>
                                           else e) attendance_df
                           else attendance_df @
                                  [\<lparr>ev_session_id = sid, ev_roll_no = roll, ev_name = stu_name student,
                                    ev_status = new_status, ev_marked_at = now,
                                    ev_method = ''manual'', ev_marked_by = teacher_id\<rparr>])
                     in (True, update_stats (write_attendance st b attendance_df') b)))))"

text \<open>
  \<open>mark_absentees_auto\<close>: the roll numbers of the roster that have no event in the
  session, each once (a Python set; its iteration order is not fixed, the model takes
  roster order). \<open>iloc[0]\<close> on an empty selection raises, which aborts before the write.
\<close>

fun absent_records :: "time \<Rightarrow> string \<Rightarrow> student list \<Rightarrow> string list \<Rightarrow> event list option" where
  "absent_records now sid students_df [] = Some []"
| "absent_records now sid students_df (roll # rolls) =
     (case filter (\<lambda>s. stu_roll_no s = roll) students_df of
        [] \<Rightarrow> None
      | student # _ \<Rightarrow>
          (case absent_records now sid students_df rolls of
             None \<Rightarrow> None
           | Some rows \<Rightarrow>
               Some (\<lparr>ev_session_id = sid, ev_roll_no = roll, ev_name = stu_name student,
                      ev_status = ''Absent'', ev_marked_at = now, ev_method = ''auto'',
                      ev_marked_by = ''system''\<rparr> # rows)))"

definition mark_absentees_auto :: "time \<Rightarrow> store \<Rightarrow> string \<Rightarrow> string \<Rightarrow> store" where
  "mark_absentees_auto now st sid b =
     (case read_csv (students (files st b)) of
        None \<Rightarrow> st
      | Some students_df \<Rightarrow>
          (case read_csv (attendance (files st b)) of
             None \<Rightarrow> st
           | Some attendance_df \<Rightarrow>
               let session_attendance = filter (\<lambda>e. ev_session_id e = sid) attendance_df;
                   marked_students = set (map ev_roll_no session_attendance);
                   all_students = remdups (map stu_roll_no students_df);
                   absent_students = filter (\<lambda>r. r \<notin> marked_students) all_students
               in (case absent_records now sid students_df absent_students of
                     None \<Rightarrow> st
                   | Some rows \<Rightarrow> update_stats (write_attendance st b (attendance_df @ rows)) b)))"

section \<open>services/session\_service.py\<close>

definition timedelta_minutes :: "int \<Rightarrow> time" where
  "timedelta_minutes m = m * 60000000"

text \<open>
  \<open>start_session\<close> returns the session it stored, or re-raises the exception of a failed
  read (\<open>None\<close>).
\<close>

definition start_session ::
  "(time \<Rightarrow> string) \<Rightarrow> time \<Rightarrow> store \<Rightarrow> string \<Rightarrow> string \<Rightarrow> int \<Rightarrow> session option \<times> store" where
  "start_session strftime now st teacher_id b deadline_minutes =
     (let st1 = ensure_branch_structure st b;
          session_data =
            \<lparr>se_session_id = generate_session_id strftime now b, se_teacher_id = teacher_id,
             se_branch_code = b, se_start_time = now,
             se_deadline_time = now + timedelta_minutes deadline_minutes, se_status = ''open''\<rparr>
      in (case read_csv (sessions (files st1 b)) of
            None \<Rightarrow> (None, st1)
          | Some sessions_df \<Rightarrow> (Some session_data, write_sessions st1 b (sessions_df @ [session_data]))))"

definition close_session :: "time \<Rightarrow> store \<Rightarrow> string \<Rightarrow> string \<Rightarrow> string \<Rightarrow> bool \<times> store" where
  "close_session now st sid b teacher_id =
     (case read_csv (sessions (files st b)) of
        None \<Rightarrow> (False, st)
      | Some sessions_df \<Rightarrow>
          if \<not> (\<exists>s \<in> set sessions_df. se_session_id s = sid) then (False, st)
          else (let sessions_df' =
                      map (\<lambda>s. if se_session_id s = sid then s\<lparr>se_status := ''closed''\<rparr> else s)
                          sessions_df;
                    st1 = write_sessions st b sessions_df'
                in (True, mark_absentees_auto now st1 sid b)))"

text \<open>
  \<open>get_active_session\<close> walks the rows that were open when the file was read; an expired
  one is closed in the store, the walk goes on over the rows as read.
\<close>

fun get_active_loop :: "time \<Rightarrow> store \<Rightarrow> string \<Rightarrow> session list \<Rightarrow> session option \<times> store" where
  "get_active_loop now st b [] = (None, st)"
| "get_active_loop now st b (session # rest) =
     (if now < se_deadline_time session then (Some session, st)
      else get_active_loop now
             (snd (close_session now st (se_session_id session) b (se_teacher_id session))) b rest)"

definition get_active_session :: "time \<Rightarrow> store \<Rightarrow> string \<Rightarrow> session option \<times> store" where
  "get_active_session now st b =
     (if \<not> file_exists (sessions (files st b)) then (None, st)
      else (case read_csv (sessions (files st b)) of
              None \<Rightarrow> (None, st)
            | Some sessions_df \<Rightarrow>
                (let open_sessions = filter (\<lambda>s. se_status s = ''open'') sessions_df
                 in if open_sessions = [] then (None, st)
                    else get_active_loop now st b open_sessions)))"

text \<open>
  \<open>get_session\<close>. \<open>DataFrame.empty\<close> is a property, a bool; the source writes
  \<open>session.empty()\<close>, which calls that bool and raises \<open>TypeError\<close>. The handler of the
  enclosing \<open>try\<close> turns every exception into \<open>None\<close>.
\<close>

datatype exn = ReadError | TypeError | IndexError

definition call_bool :: "bool \<Rightarrow> exn + bool" where
  "call_bool b = Inl TypeError"

fun get_session_loop :: "store \<Rightarrow> string \<Rightarrow> branch list \<Rightarrow> exn + session option" where
  "get_session_loop st sid [] = Inr None"
| "get_session_loop st sid (branch # rest) =
     (let branch_code = br_branch_code branch
      in if file_exists (sessions (files st branch_code)) then
           (case read_csv (sessions (files st branch_code)) of
              None \<Rightarrow> Inl ReadError
            | Some sessions_df \<Rightarrow>
                (let session = filter (\<lambda>s. se_session_id s = sid) sessions_df
                 in (case call_bool (session = []) of
                       Inl e \<Rightarrow> Inl e
                     | Inr is_empty \<Rightarrow>
                         if \<not> is_empty then
                           (case session of
                              [] \<Rightarrow> Inl IndexError
                            | session_data # _ \<Rightarrow> Inr (Some session_data))
                         else get_session_loop st sid rest)))
         else get_session_loop st sid rest)"

definition get_session :: "store \<Rightarrow> string \<Rightarrow> session option" where
  "get_session st sid =
     (case read_csv (branches_csv st) of
        None \<Rightarrow> None
      | Some branches_df \<Rightarrow>
          (case get_session_loop st sid branches_df of
             Inl e \<Rightarrow> None
           | Inr r \<Rightarrow> r))"

section \<open>api/main.py\<close>

text \<open>
  The handlers, after request validation and authentication. An \<open>HTTPException\<close> raised
  inside a handler's \<open>try\<close> is caught by its own \<open>except Exception\<close> and raised again
  with status 500. The recognition adapters are parameters: each yields the roll number
  it identified, or \<open>None\<close> for \<open>success = False\<close>.
\<close>

datatype http_error = HTTP_400 string | HTTP_404 string | HTTP_500

record mark_request =
  mr_session_id :: string
  mr_method :: string
  mr_roll_no :: "string option"
  mr_qr_data :: "string option"
  mr_face_image :: "string option"

record attendance_response =
  success :: bool
  message :: string
  already_marked :: bool
  marked_at :: "time option"
  response_method :: "string option"

definition api_start_attendance_session ::
  "(time \<Rightarrow> string) \<Rightarrow> time \<Rightarrow> store \<Rightarrow> string \<Rightarrow> string \<Rightarrow> int \<Rightarrow> (http_error + session) \<times> store" where
  "api_start_attendance_session strftime now st teacher_id b deadline_minutes =
     (if \<not> validate_branch_exists st b then (Inl (HTTP_404 ''Branch not found''), st)
      else (case get_active_session now st b of
              (Some active_session, st1) \<Rightarrow>
                (Inl (HTTP_400 ''There's already an active session for this branch''), st1)
            | (None, st1) \<Rightarrow>
                (case start_session strftime now st1 teacher_id b deadline_minutes of
                   (None, st2) \<Rightarrow> (Inl HTTP_500, st2)
                 | (Some session, st2) \<Rightarrow> (Inr session, st2))))"

definition api_close_attendance_session ::
  "time \<Rightarrow> store \<Rightarrow> string \<Rightarrow> string \<Rightarrow> string \<Rightarrow> (http_error + string) \<times> store" where
  "api_close_attendance_session now st sid b teacher_id =
     (case close_session now st sid b teacher_id of
        (False, st1) \<Rightarrow> (Inl HTTP_500, st1)
      | (True, st1) \<Rightarrow> (Inr ''Session closed successfully'', st1))"

definition api_get_active_session ::
  "time \<Rightarrow> store \<Rightarrow> string \<Rightarrow> (http_error + session option) \<times> store" where
  "api_get_active_session now st b =
     (if \<not> validate_branch_exists st b then (Inl (HTTP_404 ''Branch not found''), st)
      else (case get_active_session now st b of (session, st1) \<Rightarrow> (Inr session, st1)))"

text \<open>
  \<open>mark_attendance\<close> of the API, from the activity check on, for the session that
  \<open>get_session\<close> returned. The duplicate check runs on the \<open>roll_no\<close> of the form
  (\<open>roll_no or ""\<close>), before the adapter identifies the student; the result of
  \<open>data_service.mark_attendance\<close> is not looked at.
\<close>

definition mark_attendance_found ::
  "(string \<Rightarrow> string \<Rightarrow> string option) \<Rightarrow> (string \<Rightarrow> string \<Rightarrow> string option) \<Rightarrow>
   time \<Rightarrow> store \<Rightarrow> mark_request \<Rightarrow> session \<Rightarrow> (http_error + attendance_response) \<times> store" where
  "mark_attendance_found recognize_face decode_qr_data now st req session =
     (let sid = mr_session_id req; b = se_branch_code session
      in if \<not> is_session_active now st sid b
         then (Inl (HTTP_400 ''Session is not active or has expired''), st)
         else (let roll_or_empty = (case mr_roll_no req of None \<Rightarrow> [] | Some r \<Rightarrow> r)
               in if is_already_marked st sid roll_or_empty b then
                    (let attendance_record = get_attendance_record st sid roll_or_empty b
                     in (Inr \<lparr>success = False, message = ''Already marked'', already_marked = True,
                              marked_at = map_option ev_marked_at attendance_record,
                              response_method = map_option ev_method attendance_record\<rparr>, st))
                  else if mr_method req = ''face'' \<and> mr_face_image req \<noteq> None then
                    (case recognize_face (the (mr_face_image req)) b of
                       Some roll \<Rightarrow>
                         (Inr \<lparr>success = True, message = ''Attendance marked for '' @ roll,
                               already_marked = False, marked_at = Some now,
                               response_method = Some ''face''\<rparr>,
                          snd (mark_attendance now st sid roll b ''face'' ''student''))
                     | None \<Rightarrow>
                         (Inr \<lparr>success = False, message = ''Face not recognized'',
                               already_marked = False, marked_at = None, response_method = None\<rparr>, st))
                  else if mr_method req = ''qr'' \<and> mr_qr_data req \<noteq> None \<and> mr_qr_data req \<noteq> Some [] then
                    (case decode_qr_data (the (mr_qr_data req)) b of
                       Some roll \<Rightarrow>
                         (Inr \<lparr>success = True, message = ''Attendance marked for '' @ roll,
                               already_marked = False, marked_at = Some now,
                               response_method = Some ''qr''\<rparr>,
                          snd (mark_attendance now st sid roll b ''qr'' ''student''))
                     | None \<Rightarrow>
                         (Inr \<lparr>success = False, message = ''Invalid QR code'',
                               already_marked = False, marked_at = None, response_method = None\<rparr>, st))
                  else (Inl HTTP_500, st)))"

definition api_mark_attendance ::
  "(string \<Rightarrow> string \<Rightarrow> string option) \<Rightarrow> (string \<Rightarrow> string \<Rightarrow> string option) \<Rightarrow>
   time \<Rightarrow> store \<Rightarrow> mark_request \<Rightarrow> (http_error + attendance_response) \<times> store" where
  "api_mark_attendance recognize_face decode_qr_data now st req =
     (if mr_method req \<noteq> ''face'' \<and> mr_method req \<noteq> ''qr''
      then (Inl (HTTP_400 ''Invalid method''), st)
      else (case get_session st (mr_session_id req) of
              None \<Rightarrow> (Inl (HTTP_404 ''Session not found''), st)
            | Some session \<Rightarrow>
                mark_attendance_found recognize_face decode_qr_data now st req session))"

definition api_manual_override ::
  "time \<Rightarrow> store \<Rightarrow> string \<Rightarrow> string \<Rightarrow> string \<Rightarrow> string \<Rightarrow> string option \<Rightarrow>
   (http_error + string) \<times> store" where
  "api_manual_override now st sid roll new_status teacher_id reason =
     (case get_session st sid of
        None \<Rightarrow> (Inl (HTTP_404 ''Session not found''), st)
      | Some session \<Rightarrow>
          (case manual_override_attendance now st sid roll (se_branch_code session) new_status
                  teacher_id reason of
             (True, st1) \<Rightarrow> (Inr ''Attendance updated successfully'', st1)
           | (False, st1) \<Rightarrow> (Inl HTTP_500, st1)))"

section \<open>Sequences of session operations\<close>

text \<open>
  The session operations as the API offers them, each at its own instant: start (the
  handler checks for an active session first), close, and the query for the active
  session.
\<close>

datatype operation =
    Start string string int time
  | Close string string string time
  | GetActive string time

fun step :: "(time \<Rightarrow> string) \<Rightarrow> store \<Rightarrow> operation \<Rightarrow> store" where
  "step strftime st (Start teacher_id b deadline_minutes now) =
     snd (api_start_attendance_session strftime now st teacher_id b deadline_minutes)"
| "step strftime st (Close sid b teacher_id now) =
     snd (api_close_attendance_session now st sid b teacher_id)"
| "step strftime st (GetActive b now) = snd (api_get_active_session now st b)"

fun run :: "(time \<Rightarrow> string) \<Rightarrow> store \<Rightarrow> operation list \<Rightarrow> store" where
  "run strftime st [] = st"
| "run strftime st (opn # ops) = run strftime (step strftime st opn) ops"

fun table_rows :: "'a csv_file \<Rightarrow> 'a list" where
  "table_rows (Table rows) = rows"
| "table_rows Missing = []"
| "table_rows Unreadable = []"

definition open_sessions :: "store \<Rightarrow> string \<Rightarrow> session list" where
  "open_sessions st b = filter (\<lambda>s. se_status s = ''open'') (table_rows (sessions (files st b)))"

definition events_of :: "store \<Rightarrow> string \<Rightarrow> string \<Rightarrow> string \<Rightarrow> event list" where
  "events_of st b sid roll =
     filter (\<lambda>e. ev_session_id e = sid \<and> ev_roll_no e = roll) (table_rows (attendance (files st b)))"

section \<open>A sample deployment\<close>

text \<open>
  Branch CSH with two students, one session of five minutes started at instant 0 and one
  event: S1 marked present by face after one minute. The other branches have no files.
\<close>

definition sample_sid :: string where
  "sample_sid = ''S_20240101_090000_CSH''"

definition student_S1 :: student where
  "student_S1 = \<lparr>stu_roll_no = ''S1'', stu_name = ''Asha'', stu_face_path = ''faces/S1_Asha.jpg'',
                  stu_qr_code_path = ''qrcodes/S1.png'', stu_registered_on = 0\<rparr>"

definition student_S2 :: student where
  "student_S2 = \<lparr>stu_roll_no = ''S2'', stu_name = ''Ravi'', stu_face_path = ''faces/S2_Ravi.jpg'',
                  stu_qr_code_path = ''qrcodes/S2.png'', stu_registered_on = 0\<rparr>"

definition sample_session :: session where
  "sample_session = \<lparr>se_session_id = sample_sid, se_teacher_id = ''T001'', se_branch_code = ''CSH'',
                      se_start_time = 0, se_deadline_time = 300000000, se_status = ''open''\<rparr>"

definition event_S1 :: event where
  "event_S1 = \<lparr>ev_session_id = sample_sid, ev_roll_no = ''S1'', ev_name = ''Asha'',
                ev_status = ''Present'', ev_marked_at = 60000000, ev_method = ''face'',
                ev_marked_by = ''student''\<rparr>"

definition no_files :: branch_files where
  "no_files = \<lparr>students = Missing, attendance = Missing, stats = Missing, sessions = Missing\<rparr>"

definition sample_branches :: "branch list" where
  "sample_branches =
     [\<lparr>br_branch_code = ''CSH'', br_branch_name = ''CSE(HCI & Gaming Tech)''\<rparr>,
      \<lparr>br_branch_code = ''CSA'', br_branch_name = ''CSE(AIML)''\<rparr>,
      \<lparr>br_branch_code = ''EEE'', br_branch_name = ''Electrical & Electronics''\<rparr>]"

definition sample_store :: "session list \<Rightarrow> event list \<Rightarrow> store" where
  "sample_store sessions_df attendance_df =
     \<lparr>branches_csv = Table sample_branches,
      files = (\<lambda>b. no_files)
        (''CSH'' := \<lparr>students = Table [student_S1, student_S2], attendance = Table attendance_df,
                     stats = Table [], sessions = Table sessions_df\<rparr>)\<rparr>"


text \<open>
  Two requests to mark attendance in the sample session by QR code, the first with the
  roll number in the form, the second without; and an adapter that identifies S1.
\<close>

definition qr_request :: mark_request where
  "qr_request = \<lparr>mr_session_id = sample_sid, mr_method = ''qr'', mr_roll_no = Some ''S1'',
                  mr_qr_data = Some ''S1'', mr_face_image = None\<rparr>"

definition qr_request_no_roll :: mark_request where
  "qr_request_no_roll = \<lparr>mr_session_id = sample_sid, mr_method = ''qr'', mr_roll_no = None,
                          mr_qr_data = Some ''S1'', mr_face_image = None\<rparr>"

definition adapter_S1 :: "string \<Rightarrow> string \<Rightarrow> string option" where
  "adapter_S1 payload b = Some ''S1''"

section \<open>Writes and what they leave alone\<close>

lemma files_write_students [simp]:
  "files (write_students st b rows) b' =
     (if b' = b then (files st b)\<lparr>students := Table rows\<rparr> else files st b')"
  by (simp add: write_students_def)

lemma files_write_attendance [simp]:
  "files (write_attendance st b rows) b' =
     (if b' = b then (files st b)\<lparr>attendance := Table rows\<rparr> else files st b')"
  by (simp add: write_attendance_def)

lemma files_write_stats [simp]:
  "files (write_stats st b rows) b' =
     (if b' = b then (files st b)\<lparr>stats := Table rows\<rparr> else files st b')"
  by (simp add: write_stats_def)

lemma files_write_sessions [simp]:
  "files (write_sessions st b rows) b' =
     (if b' = b then (files st b)\<lparr>sessions := Table rows\<rparr> else files st b')"
  by (simp add: write_sessions_def)

lemma branches_csv_write [simp]:
  "branches_csv (write_students st b r1) = branches_csv st"
  "branches_csv (write_attendance st b r2) = branches_csv st"
  "branches_csv (write_stats st b r3) = branches_csv st"
  "branches_csv (write_sessions st b r4) = branches_csv st"
  by (simp_all add: write_students_def write_attendance_def write_stats_def write_sessions_def)

lemma update_stats_keeps [simp]:
  "students (files (update_stats st b) b') = students (files st b')"
  "attendance (files (update_stats st b) b') = attendance (files st b')"
  "sessions (files (update_stats st b) b') = sessions (files st b')"
  "branches_csv (update_stats st b) = branches_csv st"
  by (simp_all add: update_stats_def split: option.splits)

lemma update_stats_other [simp]:
  "b' \<noteq> b \<Longrightarrow> files (update_stats st b) b' = files st b'"
  by (simp add: update_stats_def split: option.splits)

lemma table_rows_Table:
  "x \<in> set (table_rows f) \<Longrightarrow> f = Table (table_rows f)"
  by (cases f) simp_all

lemma sample_files [simp]:
  "files (sample_store ss es) ''CSH'' =
     \<lparr>students = Table [student_S1, student_S2], attendance = Table es,
      stats = Table [], sessions = Table ss\<rparr>"
  by (simp add: sample_store_def)

section \<open>Statistics\<close>

lemma round2_zero [simp]: "round2 0 = 0"
  by (simp add: round2_def round_half_even_def)

lemma nunique_card: "nunique xs = card (set xs)"
  by (simp add: nunique_def length_remdups_card_conv)

lemma student_stat_props:
  "stat_roll_no (student_stat df n s) = stu_roll_no s"
  "total_days (student_stat df n s) = n"
  "(\<forall>e \<in> set df. ev_roll_no e \<noteq> stu_roll_no s) \<Longrightarrow>
     present_days (student_stat df n s) = 0 \<and> absent_days (student_stat df n s) = n"
  "attendance_pct (student_stat df 0 s) = 0"
  by (simp_all add: student_stat_def Let_def filter_empty_conv)

text \<open>
  Claim C7. With the roster and the event log readable, \<open>update_stats\<close> writes one record
  per roster row, in roster order; its \<open>total_days\<close> is the number of distinct session
  ids of the branch's log; a student with no event gets \<open>present_days = 0\<close> and
  \<open>absent_days = total_days\<close>; and where \<open>total_days = 0\<close> the percentage is 0.
\<close>

theorem update_stats_total_days:
  assumes "students (files st b) = Table students_df"
      and "attendance (files st b) = Table attendance_df"
  shows "\<exists>rows. stats (files (update_stats st b) b) = Table rows
           \<and> length rows = length students_df
           \<and> (\<forall>i < length students_df.
                 stat_roll_no (rows ! i) = stu_roll_no (students_df ! i)
               \<and> total_days (rows ! i) = card (set (map ev_session_id attendance_df))
               \<and> ((\<forall>e \<in> set attendance_df. ev_roll_no e \<noteq> stu_roll_no (students_df ! i))
                    \<longrightarrow> present_days (rows ! i) = 0 \<and> absent_days (rows ! i) = total_days (rows ! i))
               \<and> (total_days (rows ! i) = 0 \<longrightarrow> attendance_pct (rows ! i) = 0))"
proof (cases "attendance_df = []")
  case True
  with assms show ?thesis
    by (simp add: update_stats_def empty_stat_def)
next
  case False
  have tot0: "card (set (map ev_session_id attendance_df)) = 0 \<Longrightarrow> False"
    using False by simp
  from assms False show ?thesis
    using tot0 by (auto simp add: update_stats_def student_stat_props nunique_card)
qed


theorem update_stats_total_days_witness:
  "students (files (sample_store [sample_session] [event_S1]) ''CSH'') = Table [student_S1, student_S2]
   \<and> attendance (files (sample_store [sample_session] [event_S1]) ''CSH'') = Table [event_S1]
   \<and> (\<exists>rows. stats (files (update_stats (sample_store [sample_session] [event_S1]) ''CSH'') ''CSH'')
                 = Table rows
              \<and> length rows = 2
              \<and> stat_roll_no (rows ! 1) = ''S2'' \<and> total_days (rows ! 1) = 1
              \<and> present_days (rows ! 1) = 0 \<and> absent_days (rows ! 1) = 1)"
proof -
  have h1: "students (files (sample_store [sample_session] [event_S1]) ''CSH'')
              = Table [student_S1, student_S2]"
    by simp
  have h2: "attendance (files (sample_store [sample_session] [event_S1]) ''CSH'') = Table [event_S1]"
    by simp
  from update_stats_total_days[OF h1 h2] obtain rows where
    r: "stats (files (update_stats (sample_store [sample_session] [event_S1]) ''CSH'') ''CSH'')
          = Table rows"
       "length rows = length [student_S1, student_S2]"
       "\<forall>i < length [student_S1, student_S2].
           stat_roll_no (rows ! i) = stu_roll_no ([student_S1, student_S2] ! i)
         \<and> total_days (rows ! i) = card (set (map ev_session_id [event_S1]))
         \<and> ((\<forall>e \<in> set [event_S1]. ev_roll_no e \<noteq> stu_roll_no ([student_S1, student_S2] ! i))
              \<longrightarrow> present_days (rows ! i) = 0 \<and> absent_days (rows ! i) = total_days (rows ! i))
         \<and> (total_days (rows ! i) = 0 \<longrightarrow> attendance_pct (rows ! i) = 0)"
    by blast
  from r(3) have "stat_roll_no (rows ! 1) = ''S2'' \<and> total_days (rows ! 1) = 1
              \<and> present_days (rows ! 1) = 0 \<and> absent_days (rows ! 1) = 1"
    by (simp add: student_S2_def event_S1_def)
  with h1 h2 r(1,2) show ?thesis by simp
qed

section \<open>Manual override\<close>










section \<open>Absentee backfill\<close>

lemma absent_records_Some:
  "set rolls \<subseteq> set (map stu_roll_no students_df) \<Longrightarrow>
     absent_records now sid students_df rolls =
       Some (map (\<lambda>r. \<lparr>ev_session_id = sid, ev_roll_no = r,
                        ev_name = stu_name (hd (filter (\<lambda>s. stu_roll_no s = r) students_df)),
                        ev_status = ''Absent'', ev_marked_at = now, ev_method = ''auto'',
                        ev_marked_by = ''system''\<rparr>) rolls)"
proof (induction rolls)
  case Nil
  show ?case by simp
next
  case (Cons r rolls)
  then obtain s ss where "filter (\<lambda>s. stu_roll_no s = r) students_df = s # ss"
    by (cases "filter (\<lambda>s. stu_roll_no s = r) students_df") (auto simp: filter_empty_conv)
  with Cons show ?case by simp
qed

lemma filter_eq_distinct:
  "distinct xs \<Longrightarrow> filter (\<lambda>x. x = r) xs = (if r \<in> set xs then [r] else [])"
  by (induction xs) auto

lemma mark_absentees_auto_result:
  assumes "students (files st b) = Table students_df"
      and "attendance (files st b) = Table attendance_df"
  shows "attendance (files (mark_absentees_auto now st sid b) b) =
           Table (attendance_df @
                  map (\<lambda>r. \<lparr>ev_session_id = sid, ev_roll_no = r,
                             ev_name = stu_name (hd (filter (\<lambda>s. stu_roll_no s = r) students_df)),
                             ev_status = ''Absent'', ev_marked_at = now, ev_method = ''auto'',
                             ev_marked_by = ''system''\<rparr>)
                      (filter (\<lambda>r. r \<notin> set (map ev_roll_no
                                             (filter (\<lambda>e. ev_session_id e = sid) attendance_df)))
                              (remdups (map stu_roll_no students_df))))"
proof -
  have "set (filter (\<lambda>r. r \<notin> set (map ev_roll_no (filter (\<lambda>e. ev_session_id e = sid) attendance_df)))
               (remdups (map stu_roll_no students_df)))
          \<subseteq> set (map stu_roll_no students_df)"
    by auto
  from absent_records_Some[OF this] assms show ?thesis
    by (simp add: mark_absentees_auto_def Let_def)
qed

lemma mark_absentees_auto_events:
  assumes "students (files st b) = Table students_df"
      and "attendance (files st b) = Table attendance_df"
  shows "events_of (mark_absentees_auto now st sid b) b sid roll =
           events_of st b sid roll @
             (if roll \<in> set (map stu_roll_no students_df) \<and> events_of st b sid roll = []
              then [\<lparr>ev_session_id = sid, ev_roll_no = roll,
                      ev_name = stu_name (hd (filter (\<lambda>s. stu_roll_no s = roll) students_df)),
                      ev_status = ''Absent'', ev_marked_at = now, ev_method = ''auto'',
                      ev_marked_by = ''system''\<rparr>]
              else [])"
proof -
  let ?A = "filter (\<lambda>r. r \<notin> set (map ev_roll_no (filter (\<lambda>e. ev_session_id e = sid) attendance_df)))
              (remdups (map stu_roll_no students_df))"
  have d: "distinct ?A" by simp
  have mem: "roll \<in> set ?A \<longleftrightarrow>
               roll \<in> set (map stu_roll_no students_df) \<and> events_of st b sid roll = []"
    using assms(2) by (auto simp add: events_of_def filter_empty_conv image_iff)
  have "filter (\<lambda>e. ev_session_id e = sid \<and> ev_roll_no e = roll)
          (map (\<lambda>r. \<lparr>ev_session_id = sid, ev_roll_no = r,
                     ev_name = stu_name (hd (filter (\<lambda>s. stu_roll_no s = r) students_df)),
                     ev_status = ''Absent'', ev_marked_at = now, ev_method = ''auto'',
                     ev_marked_by = ''system''\<rparr>) ?A)
        = map (\<lambda>r. \<lparr>ev_session_id = sid, ev_roll_no = r,
                     ev_name = stu_name (hd (filter (\<lambda>s. stu_roll_no s = r) students_df)),
                     ev_status = ''Absent'', ev_marked_at = now, ev_method = ''auto'',
                     ev_marked_by = ''system''\<rparr>) (filter (\<lambda>x. x = roll) ?A)"
    by (simp add: filter_map comp_def)
  also have "filter (\<lambda>x. x = roll) ?A = (if roll \<in> set ?A then [roll] else [])"
    using d by (rule filter_eq_distinct)
  finally show ?thesis
    using mark_absentees_auto_result[OF assms, of now sid] assms(2) mem
    by (simp add: events_of_def)
qed

text \<open>
  Claim C6, amended. With the roster and the event log readable, \<open>mark_absentees_auto\<close>
  appends to the log and changes no row of it; a roster student with no event for the
  session gains exactly one, Absent, auto, by system; a roster student with events for
  the session keeps exactly those. So every roster student has exactly one event
  afterwards when none had more than one before.
\<close>

theorem mark_absentees_auto_backfill:
  assumes "students (files st b) = Table students_df"
      and "attendance (files st b) = Table attendance_df"
  shows "(\<exists>rows. attendance (files (mark_absentees_auto now st sid b) b) = Table (attendance_df @ rows))
       \<and> (\<forall>roll \<in> set (map stu_roll_no students_df).
             (events_of st b sid roll = [] \<longrightarrow>
                (\<exists>e. events_of (mark_absentees_auto now st sid b) b sid roll = [e]
                     \<and> ev_status e = ''Absent'' \<and> ev_method e = ''auto''
                     \<and> ev_marked_by e = ''system''))
           \<and> (events_of st b sid roll \<noteq> [] \<longrightarrow>
                events_of (mark_absentees_auto now st sid b) b sid roll = events_of st b sid roll))
       \<and> ((\<forall>roll \<in> set (map stu_roll_no students_df). length (events_of st b sid roll) \<le> 1) \<longrightarrow>
            (\<forall>roll \<in> set (map stu_roll_no students_df).
               length (events_of (mark_absentees_auto now st sid b) b sid roll) = 1))"
proof (intro conjI)
  show "\<exists>rows. attendance (files (mark_absentees_auto now st sid b) b) = Table (attendance_df @ rows)"
    using mark_absentees_auto_result[OF assms] by blast
next
  show "\<forall>roll \<in> set (map stu_roll_no students_df).
             (events_of st b sid roll = [] \<longrightarrow>
                (\<exists>e. events_of (mark_absentees_auto now st sid b) b sid roll = [e]
                     \<and> ev_status e = ''Absent'' \<and> ev_method e = ''auto''
                     \<and> ev_marked_by e = ''system''))
           \<and> (events_of st b sid roll \<noteq> [] \<longrightarrow>
                events_of (mark_absentees_auto now st sid b) b sid roll = events_of st b sid roll)"
    by (simp add: mark_absentees_auto_events[OF assms])
next
  show "(\<forall>roll \<in> set (map stu_roll_no students_df). length (events_of st b sid roll) \<le> 1) \<longrightarrow>
            (\<forall>roll \<in> set (map stu_roll_no students_df).
               length (events_of (mark_absentees_auto now st sid b) b sid roll) = 1)"
  proof (intro impI ballI)
    fix roll
    assume one: "\<forall>roll \<in> set (map stu_roll_no students_df). length (events_of st b sid roll) \<le> 1"
       and r: "roll \<in> set (map stu_roll_no students_df)"
    from one r have "length (events_of st b sid roll) \<le> 1" by blast
    with r show "length (events_of (mark_absentees_auto now st sid b) b sid roll) = 1"
      by (cases "events_of st b sid roll") (simp_all add: mark_absentees_auto_events[OF assms])
  qed
qed

theorem mark_absentees_auto_backfill_witness:
  "students (files (sample_store [sample_session] [event_S1]) ''CSH'') = Table [student_S1, student_S2]
   \<and> attendance (files (sample_store [sample_session] [event_S1]) ''CSH'') = Table [event_S1]
   \<and> length (events_of (sample_store [sample_session] [event_S1]) ''CSH'' sample_sid ''S1'') = 1
   \<and> events_of (sample_store [sample_session] [event_S1]) ''CSH'' sample_sid ''S2'' = []
   \<and> length (events_of (mark_absentees_auto 300000000 (sample_store [sample_session] [event_S1])
                sample_sid ''CSH'') ''CSH'' sample_sid ''S1'') = 1
   \<and> length (events_of (mark_absentees_auto 300000000 (sample_store [sample_session] [event_S1])
                sample_sid ''CSH'') ''CSH'' sample_sid ''S2'') = 1"
proof -
  have h1: "students (files (sample_store [sample_session] [event_S1]) ''CSH'')
              = Table [student_S1, student_S2]"
    by simp
  have h2: "attendance (files (sample_store [sample_session] [event_S1]) ''CSH'') = Table [event_S1]"
    by simp
  have e1: "length (events_of (sample_store [sample_session] [event_S1]) ''CSH'' sample_sid ''S1'') = 1"
    by (simp add: events_of_def event_S1_def)
  have e2: "events_of (sample_store [sample_session] [event_S1]) ''CSH'' sample_sid ''S2'' = []"
    by (simp add: events_of_def event_S1_def)
  have pre: "\<forall>roll \<in> set (map stu_roll_no [student_S1, student_S2]).
               length (events_of (sample_store [sample_session] [event_S1]) ''CSH'' sample_sid roll) \<le> 1"
    using e1 e2 by (simp add: student_S1_def student_S2_def)
  from mark_absentees_auto_backfill[OF h1 h2, of 300000000 sample_sid] pre
  have "\<forall>roll \<in> set (map stu_roll_no [student_S1, student_S2]).
          length (events_of (mark_absentees_auto 300000000 (sample_store [sample_session] [event_S1])
                    sample_sid ''CSH'') ''CSH'' sample_sid roll) = 1"
    by blast
  then have "length (events_of (mark_absentees_auto 300000000 (sample_store [sample_session] [event_S1])
                sample_sid ''CSH'') ''CSH'' sample_sid ''S1'') = 1
   \<and> length (events_of (mark_absentees_auto 300000000 (sample_store [sample_session] [event_S1])
                sample_sid ''CSH'') ''CSH'' sample_sid ''S2'') = 1"
    by (simp add: student_S1_def student_S2_def)
  with h1 h2 e1 e2 show ?thesis by blast
qed

text \<open>
  The claim as stated fails on a log that already holds two events of one student for the
  session: the backfill removes no duplicate.
\<close>

theorem mark_absentees_auto_counterexample:
  "''S1'' \<in> set (map stu_roll_no [student_S1, student_S2])
   \<and> students (files (sample_store [sample_session] [event_S1, event_S1]) ''CSH'')
       = Table [student_S1, student_S2]
   \<and> length (events_of (mark_absentees_auto 300000000
                (sample_store [sample_session] [event_S1, event_S1]) sample_sid ''CSH'')
              ''CSH'' sample_sid ''S1'') = 2"
proof -
  have h1: "students (files (sample_store [sample_session] [event_S1, event_S1]) ''CSH'')
              = Table [student_S1, student_S2]"
    by simp
  have h2: "attendance (files (sample_store [sample_session] [event_S1, event_S1]) ''CSH'')
              = Table [event_S1, event_S1]"
    by simp
  have e: "events_of (sample_store [sample_session] [event_S1, event_S1]) ''CSH'' sample_sid ''S1''
             = [event_S1, event_S1]"
    by (simp add: events_of_def event_S1_def)
  show ?thesis
    using h1 e by (simp add: mark_absentees_auto_events[OF h1 h2] student_S1_def)
qed

section \<open>Closing a session\<close>

lemma mark_absentees_auto_keeps [simp]:
  "sessions (files (mark_absentees_auto now st sid b) b') = sessions (files st b')"
  "students (files (mark_absentees_auto now st sid b) b') = students (files st b')"
  "branches_csv (mark_absentees_auto now st sid b) = branches_csv st"
  by (simp_all add: mark_absentees_auto_def Let_def split: option.splits)

lemma close_session_False:
  assumes "\<forall>s \<in> set (table_rows (sessions (files st b))). se_session_id s \<noteq> sid"
  shows "close_session now st sid b teacher_id = (False, st)"
  using assms by (cases "sessions (files st b)") (auto simp add: close_session_def)

lemma close_session_True:
  assumes "\<exists>s \<in> set (table_rows (sessions (files st b))). se_session_id s = sid"
  shows "close_session now st sid b teacher_id =
           (True, mark_absentees_auto now
                    (write_sessions st b
                       (map (\<lambda>s. if se_session_id s = sid then s\<lparr>se_status := ''closed''\<rparr> else s)
                            (table_rows (sessions (files st b)))))
                    sid b)"
  using assms by (cases "sessions (files st b)") (auto simp add: close_session_def)


lemma close_session_rows:
  "table_rows (sessions (files (snd (close_session now st sid b teacher_id)) b')) =
     (if b' = b
      then map (\<lambda>s. if se_session_id s = sid then s\<lparr>se_status := ''closed''\<rparr> else s)
               (table_rows (sessions (files st b)))
      else table_rows (sessions (files st b')))"
proof (cases "\<exists>s \<in> set (table_rows (sessions (files st b))). se_session_id s = sid")
  case True
  then show ?thesis by (simp add: close_session_True)
next
  case False
  then have "map (\<lambda>s. if se_session_id s = sid then s\<lparr>se_status := ''closed''\<rparr> else s)
               (table_rows (sessions (files st b))) = table_rows (sessions (files st b))"
    by (simp add: map_idI)
  with False show ?thesis by (simp add: close_session_False)
qed


lemma close_session_keeps [simp]:
  "read_csv (sessions (files (snd (close_session now st sid b teacher_id)) b')) = None
     \<longleftrightarrow> read_csv (sessions (files st b')) = None"
  "file_exists (sessions (files (snd (close_session now st sid b teacher_id)) b'))
     = file_exists (sessions (files st b'))"
  "branches_csv (snd (close_session now st sid b teacher_id)) = branches_csv st"
proof -
  show "read_csv (sessions (files (snd (close_session now st sid b teacher_id)) b')) = None
     \<longleftrightarrow> read_csv (sessions (files st b')) = None"
  proof (cases "\<exists>s \<in> set (table_rows (sessions (files st b))). se_session_id s = sid")
    case True
    then obtain x where "x \<in> set (table_rows (sessions (files st b)))" by blast
    then have "sessions (files st b) = Table (table_rows (sessions (files st b)))"
      by (rule table_rows_Table)
    then have "read_csv (sessions (files st b)) \<noteq> None"
      by (metis option.distinct(1) read_csv.simps(3))
    with True show ?thesis by (simp add: close_session_True)
  next
    case False
    then show ?thesis by (simp add: close_session_False)
  qed
  show "file_exists (sessions (files (snd (close_session now st sid b teacher_id)) b'))
     = file_exists (sessions (files st b'))"
  proof (cases "\<exists>s \<in> set (table_rows (sessions (files st b))). se_session_id s = sid")
    case True
    then obtain x where "x \<in> set (table_rows (sessions (files st b)))" by blast
    then have "sessions (files st b) = Table (table_rows (sessions (files st b)))"
      by (rule table_rows_Table)
    then have "file_exists (sessions (files st b))"
      by (metis file_exists.simps(3))
    with True show ?thesis by (simp add: close_session_True)
  next
    case False
    then show ?thesis by (simp add: close_session_False)
  qed
  show "branches_csv (snd (close_session now st sid b teacher_id)) = branches_csv st"
    by (cases "\<exists>s \<in> set (table_rows (sessions (files st b))). se_session_id s = sid")
       (simp_all add: close_session_True close_session_False)
qed

lemma closed_rows_status:
  assumes "s \<in> set (map (\<lambda>s. if se_session_id s = sid then s\<lparr>se_status := ''closed''\<rparr> else s) rows)"
      and "se_session_id s = sid"
  shows "se_status s = ''closed''"
proof -
  from assms(1)[unfolded set_map] obtain x where
    x: "s = (if se_session_id x = sid then x\<lparr>se_status := ''closed''\<rparr> else x)"
    by (rule imageE)
  show ?thesis
  proof (cases "se_session_id x = sid")
    case True
    with x show ?thesis by simp
  next
    case False
    with x assms(2) show ?thesis by simp
  qed
qed

lemma closed_rows_ids:
  assumes "x \<in> set rows" and "se_session_id x = sid"
  shows "\<exists>s \<in> set (map (\<lambda>s. if se_session_id s = sid then s\<lparr>se_status := ''closed''\<rparr> else s) rows).
           se_session_id s = sid"
proof -
  have "(if se_session_id x = sid then x\<lparr>se_status := ''closed''\<rparr> else x)
          \<in> set (map (\<lambda>s. if se_session_id s = sid then s\<lparr>se_status := ''closed''\<rparr> else s) rows)"
    unfolding set_map using assms(1) by (rule imageI)
  moreover have "se_session_id (if se_session_id x = sid then x\<lparr>se_status := ''closed''\<rparr> else x) = sid"
    using assms(2) by simp
  ultimately show ?thesis by (rule bexI[rotated])
qed

text \<open>
  Claim C5. \<open>close_session\<close> returns false, and changes nothing, when the branch's
  session table has no row with the session id (also when the table cannot be read). When
  a row exists, it sets the status of the rows with that id to closed whatever it was,
  runs \<open>mark_absentees_auto\<close> on the result and returns true; a second close returns
  true again and the status stays closed.
\<close>

theorem close_session_closes:
  "((\<forall>s \<in> set (table_rows (sessions (files st b))). se_session_id s \<noteq> sid) \<longrightarrow>
      close_session now st sid b teacher_id = (False, st))
   \<and> ((\<exists>s \<in> set (table_rows (sessions (files st b))). se_session_id s = sid) \<longrightarrow>
        close_session now st sid b teacher_id =
          (True, mark_absentees_auto now
                   (write_sessions st b
                      (map (\<lambda>s. if se_session_id s = sid then s\<lparr>se_status := ''closed''\<rparr> else s)
                           (table_rows (sessions (files st b)))))
                   sid b)
      \<and> (\<forall>s \<in> set (table_rows (sessions (files (snd (close_session now st sid b teacher_id)) b))).
            se_session_id s = sid \<longrightarrow> se_status s = ''closed'')
      \<and> fst (close_session again (snd (close_session now st sid b teacher_id)) sid b teacher_again) = True
      \<and> (\<forall>s \<in> set (table_rows (sessions (files
               (snd (close_session again (snd (close_session now st sid b teacher_id)) sid b teacher_again))
               b))).
            se_session_id s = sid \<longrightarrow> se_status s = ''closed''))"
proof (intro conjI impI)
  assume "\<forall>s \<in> set (table_rows (sessions (files st b))). se_session_id s \<noteq> sid"
  then show "close_session now st sid b teacher_id = (False, st)"
    by (rule close_session_False)
next
  assume ex: "\<exists>s \<in> set (table_rows (sessions (files st b))). se_session_id s = sid"
  let ?st1 = "snd (close_session now st sid b teacher_id)"
  let ?st2 = "snd (close_session again ?st1 sid b teacher_again)"
  from ex show "close_session now st sid b teacher_id =
          (True, mark_absentees_auto now
                   (write_sessions st b
                      (map (\<lambda>s. if se_session_id s = sid then s\<lparr>se_status := ''closed''\<rparr> else s)
                           (table_rows (sessions (files st b)))))
                   sid b)"
    by (rule close_session_True)
  have rows1: "table_rows (sessions (files ?st1 b)) =
                 map (\<lambda>s. if se_session_id s = sid then s\<lparr>se_status := ''closed''\<rparr> else s)
                     (table_rows (sessions (files st b)))"
    by (simp only: close_session_rows simp_thms if_True)
  have rows2: "table_rows (sessions (files ?st2 b)) =
                 map (\<lambda>s. if se_session_id s = sid then s\<lparr>se_status := ''closed''\<rparr> else s)
                     (table_rows (sessions (files ?st1 b)))"
    by (simp only: close_session_rows simp_thms if_True)
  show "\<forall>s \<in> set (table_rows (sessions (files ?st1 b))).
            se_session_id s = sid \<longrightarrow> se_status s = ''closed''"
    unfolding rows1 by (intro ballI impI) (rule closed_rows_status)
  from ex obtain x where "x \<in> set (table_rows (sessions (files st b)))" "se_session_id x = sid"
    by blast
  then have ex1: "\<exists>s \<in> set (table_rows (sessions (files ?st1 b))). se_session_id s = sid"
    unfolding rows1 by (rule closed_rows_ids)
  have "close_session again ?st1 sid b teacher_again =
          (True, mark_absentees_auto again
                   (write_sessions ?st1 b
                      (map (\<lambda>s. if se_session_id s = sid then s\<lparr>se_status := ''closed''\<rparr> else s)
                           (table_rows (sessions (files ?st1 b)))))
                   sid b)"
    using ex1 by (rule close_session_True)
  then show "fst (close_session again ?st1 sid b teacher_again) = True"
    by (simp only: fst_conv)
  show "\<forall>s \<in> set (table_rows (sessions (files ?st2 b))).
            se_session_id s = sid \<longrightarrow> se_status s = ''closed''"
    unfolding rows2 by (intro ballI impI) (rule closed_rows_status)
qed

theorem close_session_closes_witness:
  "table_rows (sessions (files (sample_store [sample_session] [event_S1]) ''CSH'')) = [sample_session]
   \<and> se_session_id sample_session = sample_sid
   \<and> fst (close_session 300000000 (sample_store [sample_session] [event_S1]) sample_sid ''CSH'' ''T001'')
       = True
   \<and> fst (close_session 400000000
             (snd (close_session 300000000 (sample_store [sample_session] [event_S1])
                     sample_sid ''CSH'' ''T001''))
             sample_sid ''CSH'' ''T001'') = True
   \<and> close_session 300000000 (sample_store [sample_session] [event_S1]) ''S_none'' ''CSH'' ''T001''
       = (False, sample_store [sample_session] [event_S1])"
proof -
  have rows: "table_rows (sessions (files (sample_store [sample_session] [event_S1]) ''CSH''))
                = [sample_session]"
    by simp
  have sid: "se_session_id sample_session = sample_sid"
    by (simp add: sample_session_def)
  have ex: "\<exists>s \<in> set (table_rows (sessions (files (sample_store [sample_session] [event_S1]) ''CSH''))).
              se_session_id s = sample_sid"
    using sid by simp
  have nex: "\<forall>s \<in> set (table_rows (sessions (files (sample_store [sample_session] [event_S1]) ''CSH''))).
               se_session_id s \<noteq> ''S_none''"
    by (simp add: sample_session_def sample_sid_def)
  note t1 = close_session_closes[where st="sample_store [sample_session] [event_S1]" and b="''CSH''"
      and sid=sample_sid and now=300000000 and teacher_id="''T001''" and again=400000000
      and teacher_again="''T001''"]
  note t2 = close_session_closes[where st="sample_store [sample_session] [event_S1]" and b="''CSH''"
      and sid="''S_none''" and now=300000000 and teacher_id="''T001''" and again=400000000
      and teacher_again="''T001''"]
  note d = t1[THEN conjunct2, THEN mp, OF ex]
  have a: "fst (close_session 300000000 (sample_store [sample_session] [event_S1])
                  sample_sid ''CSH'' ''T001'') = True"
    by (simp only: d[THEN conjunct1] fst_conv)
  note b = d[THEN conjunct2, THEN conjunct2, THEN conjunct1]
  note c = t2[THEN conjunct1, THEN mp, OF nex]
  from rows sid a b c show ?thesis by (intro conjI)
qed

section \<open>At most one open session\<close>

lemma filter_open_closed:
  "filter (\<lambda>s. se_status s = ''open'')
     (map (\<lambda>s. if se_session_id s = sid then s\<lparr>se_status := ''closed''\<rparr> else s) rows)
   = filter (\<lambda>s. se_session_id s \<noteq> sid) (filter (\<lambda>s. se_status s = ''open'') rows)"
  by (induction rows) simp_all

lemma open_sessions_close:
  "open_sessions (snd (close_session now st sid b teacher_id)) b' =
     (if b' = b then filter (\<lambda>s. se_session_id s \<noteq> sid) (open_sessions st b)
      else open_sessions st b')"
  by (simp only: open_sessions_def close_session_rows filter_open_closed if_distrib[of "filter _"]
        split: if_splits)

lemma get_active_loop_fst:
  "fst (get_active_loop now st b L) = find (\<lambda>s. now < se_deadline_time s) L"
  by (induction L arbitrary: st) simp_all

lemma get_active_loop_le:
  "length (open_sessions (snd (get_active_loop now st b L)) b') \<le> length (open_sessions st b')"
proof (induction L arbitrary: st)
  case Nil
  show ?case by simp
next
  case (Cons s L)
  show ?case
  proof (cases "now < se_deadline_time s")
    case True
    then show ?thesis by simp
  next
    case False
    have "length (open_sessions (snd (get_active_loop now
              (snd (close_session now st (se_session_id s) b (se_teacher_id s))) b L)) b')
          \<le> length (open_sessions (snd (close_session now st (se_session_id s) b (se_teacher_id s))) b')"
      by (rule Cons.IH)
    also have "\<dots> \<le> length (open_sessions st b')"
      by (simp add: open_sessions_close)
    finally show ?thesis using False by simp
  qed
qed

lemma get_active_loop_None:
  "fst (get_active_loop now st b L) = None \<Longrightarrow>
     open_sessions (snd (get_active_loop now st b L)) b =
       filter (\<lambda>s. se_session_id s \<notin> se_session_id ` set L) (open_sessions st b)"
proof (induction L arbitrary: st)
  case Nil
  show ?case by simp
next
  case (Cons s L)
  from Cons.prems have exp: "\<not> now < se_deadline_time s"
    by (auto split: if_splits)
  let ?st1 = "snd (close_session now st (se_session_id s) b (se_teacher_id s))"
  from Cons.prems exp have "fst (get_active_loop now ?st1 b L) = None" by simp
  then have "open_sessions (snd (get_active_loop now ?st1 b L)) b =
               filter (\<lambda>x. se_session_id x \<notin> se_session_id ` set L) (open_sessions ?st1 b)"
    by (rule Cons.IH)
  also have "\<dots> = filter (\<lambda>x. se_session_id x \<notin> se_session_id ` set (s # L)) (open_sessions st b)"
    by (auto simp add: open_sessions_close intro: filter_cong)
  finally show ?case using exp by simp
qed

lemma get_active_loop_keeps [simp]:
  "branches_csv (snd (get_active_loop now st b L)) = branches_csv st"
  by (induction L arbitrary: st) simp_all

lemma open_sessions_Table:
  "sessions (files st b) = Table df \<Longrightarrow> open_sessions st b = filter (\<lambda>s. se_status s = ''open'') df"
  by (simp add: open_sessions_def)

lemma open_sessions_no_table:
  "read_csv (sessions (files st b)) = None \<Longrightarrow> open_sessions st b = []"
  by (cases "sessions (files st b)") (simp_all add: open_sessions_def)

lemma get_active_session_le:
  "length (open_sessions (snd (get_active_session now st b)) b') \<le> length (open_sessions st b')"
  by (cases "sessions (files st b)")
     (simp_all add: get_active_session_def Let_def get_active_loop_le)

lemma get_active_session_keeps [simp]:
  "branches_csv (snd (get_active_session now st b)) = branches_csv st"
  by (cases "sessions (files st b)") (simp_all add: get_active_session_def Let_def)

lemma get_active_session_None:
  assumes "fst (get_active_session now st b) = None"
  shows "open_sessions (snd (get_active_session now st b)) b = []"
proof (cases "sessions (files st b)")
  case Missing
  then show ?thesis by (simp add: get_active_session_def open_sessions_def)
next
  case Unreadable
  then show ?thesis by (simp add: get_active_session_def open_sessions_def)
next
  case (Table df)
  show ?thesis
  proof (cases "filter (\<lambda>s. se_status s = ''open'') df = []")
    case True
    with Table show ?thesis by (simp add: get_active_session_def open_sessions_def)
  next
    case False
    with Table have eq: "get_active_session now st b = get_active_loop now st b (open_sessions st b)"
      by (simp add: get_active_session_def open_sessions_def)
    with assms have "fst (get_active_loop now st b (open_sessions st b)) = None" by simp
    then have "open_sessions (snd (get_active_loop now st b (open_sessions st b))) b =
                 filter (\<lambda>s. se_session_id s \<notin> se_session_id ` set (open_sessions st b))
                        (open_sessions st b)"
      by (rule get_active_loop_None)
    also have "\<dots> = []" by (simp add: filter_empty_conv)
    finally show ?thesis by (simp only: eq)
  qed
qed

lemma get_active_session_Some:
  assumes "s \<in> set (open_sessions st b)" and "now < se_deadline_time s"
  shows "fst (get_active_session now st b) \<noteq> None"
proof -
  from assms(1) obtain df where df: "sessions (files st b) = Table df"
    by (cases "sessions (files st b)") (simp_all add: open_sessions_def)
  from assms(1) df have ne: "filter (\<lambda>s. se_status s = ''open'') df \<noteq> []"
    by (auto simp add: open_sessions_def filter_empty_conv)
  with df have eq: "get_active_session now st b = get_active_loop now st b (open_sessions st b)"
    by (simp add: get_active_session_def open_sessions_def)
  have "find (\<lambda>s. now < se_deadline_time s) (open_sessions st b) \<noteq> None"
    using assms by (auto simp add: find_None_iff)
  then show ?thesis by (simp add: eq get_active_loop_fst)
qed

lemma ensure_branch_structure_keeps [simp]:
  "table_rows (sessions (files (ensure_branch_structure st b) b')) = table_rows (sessions (files st b'))"
  "branches_csv (ensure_branch_structure st b) = branches_csv st"
  by (cases "sessions (files st b)"; simp add: ensure_branch_structure_def Let_def)+

lemma open_sessions_ensure [simp]:
  "open_sessions (ensure_branch_structure st b) b' = open_sessions st b'"
  by (simp add: open_sessions_def)

lemma start_session_open_le:
  "length (open_sessions (snd (start_session strftime now st teacher_id b deadline_minutes)) b')
     \<le> length (open_sessions st b') + (if b' = b then 1 else 0)"
proof (cases "read_csv (sessions (files (ensure_branch_structure st b) b))")
  case None
  then show ?thesis by (simp add: start_session_def Let_def)
next
  case (Some df)
  then have "sessions (files (ensure_branch_structure st b) b) = Table df"
    by (cases "sessions (files (ensure_branch_structure st b) b)") simp_all
  then have df: "df = table_rows (sessions (files st b))"
    by (metis ensure_branch_structure_keeps(1) table_rows.simps(1))
  from Some show ?thesis
    by (simp add: start_session_def Let_def open_sessions_def df)
qed

lemma start_session_keeps [simp]:
  "branches_csv (snd (start_session strftime now st teacher_id b deadline_minutes)) = branches_csv st"
  by (simp add: start_session_def Let_def split: option.splits)

lemma api_start_le:
  assumes "\<forall>b'. length (open_sessions st b') \<le> 1"
  shows "length (open_sessions
           (snd (api_start_attendance_session strftime now st teacher_id b deadline_minutes)) b') \<le> 1"
proof (cases "validate_branch_exists st b")
  case False
  with assms show ?thesis by (simp add: api_start_attendance_session_def)
next
  case True
  obtain r st1 where g: "get_active_session now st b = (r, st1)"
    by (cases "get_active_session now st b")
  have le1: "length (open_sessions st1 b') \<le> 1"
    using get_active_session_le[of now st b b'] assms g
    by (metis le_trans snd_conv)
  show ?thesis
  proof (cases r)
    case (Some active)
    with True g
    have "snd (api_start_attendance_session strftime now st teacher_id b deadline_minutes) = st1"
      by (simp add: api_start_attendance_session_def)
    with le1 show ?thesis by simp
  next
    case None
    obtain r2 st2 where s: "start_session strftime now st1 teacher_id b deadline_minutes = (r2, st2)"
      by (cases "start_session strftime now st1 teacher_id b deadline_minutes")
    from True g None s
    have snd_eq: "snd (api_start_attendance_session strftime now st teacher_id b deadline_minutes) = st2"
      by (cases r2) (simp_all add: api_start_attendance_session_def)
    have "fst (get_active_session now st b) = None" using g None by simp
    then have "open_sessions (snd (get_active_session now st b)) b = []"
      by (rule get_active_session_None)
    then have none: "open_sessions st1 b = []" using g by simp
    have "length (open_sessions (snd (start_session strftime now st1 teacher_id b deadline_minutes)) b')
            \<le> length (open_sessions st1 b') + (if b' = b then 1 else 0)"
      by (rule start_session_open_le)
    also have "\<dots> \<le> 1"
      using none le1 by (cases "b' = b") simp_all
    finally show ?thesis using s by (simp add: snd_eq)
  qed
qed

lemma api_close_le:
  "length (open_sessions (snd (api_close_attendance_session now st sid b teacher_id)) b')
     \<le> length (open_sessions st b')"
proof -
  obtain ok st1 where c: "close_session now st sid b teacher_id = (ok, st1)"
    by (cases "close_session now st sid b teacher_id")
  then have "snd (api_close_attendance_session now st sid b teacher_id)
               = snd (close_session now st sid b teacher_id)"
    by (cases ok) (simp_all add: api_close_attendance_session_def)
  then show ?thesis by (simp add: open_sessions_close)
qed

lemma api_get_active_le:
  "length (open_sessions (snd (api_get_active_session now st b)) b') \<le> length (open_sessions st b')"
proof (cases "validate_branch_exists st b")
  case False
  then show ?thesis by (simp add: api_get_active_session_def)
next
  case True
  then have "snd (api_get_active_session now st b) = snd (get_active_session now st b)"
    by (simp add: api_get_active_session_def split: prod.splits)
  then show ?thesis by (simp add: get_active_session_le)
qed

lemma step_le:
  assumes "\<forall>b'. length (open_sessions st b') \<le> 1"
  shows "\<forall>b'. length (open_sessions (step strftime st opn) b') \<le> 1"
proof (cases opn)
  case (Start teacher_id b deadline_minutes now)
  with api_start_le[OF assms] show ?thesis by simp
next
  case (Close sid b teacher_id now)
  show ?thesis
  proof
    fix b'
    have "length (open_sessions (snd (api_close_attendance_session now st sid b teacher_id)) b')
            \<le> length (open_sessions st b')"
      by (rule api_close_le)
    with assms Close show "length (open_sessions (step strftime st opn) b') \<le> 1"
      by (metis le_trans step.simps(2))
  qed
next
  case (GetActive b now)
  show ?thesis
  proof
    fix b'
    have "length (open_sessions (snd (api_get_active_session now st b)) b')
            \<le> length (open_sessions st b')"
      by (rule api_get_active_le)
    with assms GetActive show "length (open_sessions (step strftime st opn) b') \<le> 1"
      by (metis le_trans step.simps(3))
  qed
qed

lemma run_le:
  "\<forall>b'. length (open_sessions st b') \<le> 1 \<Longrightarrow>
     \<forall>b'. length (open_sessions (run strftime st ops) b') \<le> 1"
proof (induction ops arbitrary: st)
  case Nil
  then show ?case by simp
next
  case (Cons opn ops)
  from Cons.prems have "\<forall>b'. length (open_sessions (step strftime st opn) b') \<le> 1"
    by (rule step_le)
  then have "\<forall>b'. length (open_sessions (run strftime (step strftime st opn) ops) b') \<le> 1"
    by (rule Cons.IH)
  then show ?case by simp
qed

lemma api_start_conflict:
  assumes "validate_branch_exists st b"
      and "s \<in> set (open_sessions st b)" and "now < se_deadline_time s"
  shows "fst (api_start_attendance_session strftime now st teacher_id b deadline_minutes)
           = Inl (HTTP_400 ''There's already an active session for this branch'')"
proof -
  obtain r st1 where g: "get_active_session now st b = (r, st1)"
    by (cases "get_active_session now st b")
  from get_active_session_Some[OF assms(2,3)] g obtain active where "r = Some active"
    by (cases r) simp_all
  with assms(1) g show ?thesis by (simp add: api_start_attendance_session_def)
qed

lemma api_start_conflict_store:
  assumes "validate_branch_exists st b"
      and "s \<in> set (open_sessions st b)" and "now < se_deadline_time s"
  shows "snd (api_start_attendance_session strftime now st teacher_id b deadline_minutes)
           = snd (get_active_session now st b)"
proof -
  obtain r st1 where g: "get_active_session now st b = (r, st1)"
    by (cases "get_active_session now st b")
  from get_active_session_Some[OF assms(2,3)] g obtain active where "r = Some active"
    by (cases r) simp_all
  with assms(1) g show ?thesis by (simp add: api_start_attendance_session_def)
qed

lemma validate_branch_exists_cong:
  "branches_csv st' = branches_csv st \<Longrightarrow> validate_branch_exists st' b = validate_branch_exists st b"
  by (simp add: validate_branch_exists_def)

lemma close_session_rows_empty:
  "(table_rows (sessions (files (snd (close_session now st sid b teacher_id)) b')) = [])
     = (table_rows (sessions (files st b')) = [])"
  by (simp add: close_session_rows)

lemma get_active_loop_rows_empty:
  "(table_rows (sessions (files (snd (get_active_loop now st b L)) b')) = [])
     = (table_rows (sessions (files st b')) = [])"
  by (induction L arbitrary: st) (simp_all add: close_session_rows_empty)

lemma get_active_session_rows_empty:
  "(table_rows (sessions (files (snd (get_active_session now st b)) b')) = [])
     = (table_rows (sessions (files st b')) = [])"
  by (cases "sessions (files st b)")
     (simp_all add: get_active_session_def Let_def get_active_loop_rows_empty)

lemma start_session_rows_other:
  "b' \<noteq> b \<Longrightarrow>
     table_rows (sessions (files (snd (start_session strftime now st teacher_id b deadline_minutes)) b'))
       = table_rows (sessions (files st b'))"
  by (simp add: start_session_def Let_def split: option.splits)

lemma api_start_registered:
  assumes "\<forall>b'. table_rows (sessions (files st b')) \<noteq> [] \<longrightarrow> validate_branch_exists st b'"
  shows "table_rows (sessions (files
           (snd (api_start_attendance_session strftime now st teacher_id b deadline_minutes)) b')) \<noteq> []
         \<longrightarrow> validate_branch_exists
               (snd (api_start_attendance_session strftime now st teacher_id b deadline_minutes)) b'"
proof (cases "validate_branch_exists st b")
  case False
  with assms show ?thesis by (simp add: api_start_attendance_session_def)
next
  case True
  obtain r st1 where g: "get_active_session now st b = (r, st1)"
    by (cases "get_active_session now st b")
  have st1: "st1 = snd (get_active_session now st b)" using g by simp
  have b1: "branches_csv st1 = branches_csv st" by (simp add: st1)
  have rows1: "(table_rows (sessions (files st1 b')) = []) = (table_rows (sessions (files st b')) = [])"
    by (simp add: st1 get_active_session_rows_empty)
  show ?thesis
  proof (cases r)
    case (Some active)
    with True g
    have "snd (api_start_attendance_session strftime now st teacher_id b deadline_minutes) = st1"
      by (simp add: api_start_attendance_session_def)
    with assms rows1 validate_branch_exists_cong[OF b1] show ?thesis by simp
  next
    case None
    obtain r2 st2 where s: "start_session strftime now st1 teacher_id b deadline_minutes = (r2, st2)"
      by (cases "start_session strftime now st1 teacher_id b deadline_minutes")
    from True g None s
    have snd_eq: "snd (api_start_attendance_session strftime now st teacher_id b deadline_minutes) = st2"
      by (cases r2) (simp_all add: api_start_attendance_session_def)
    have st2: "st2 = snd (start_session strftime now st1 teacher_id b deadline_minutes)"
      using s by simp
    have b2: "branches_csv st2 = branches_csv st" by (simp add: st2 b1)
    show ?thesis
    proof (cases "b' = b")
      case True
      with \<open>validate_branch_exists st b\<close> validate_branch_exists_cong[OF b2] snd_eq
      show ?thesis by simp
    next
      case False
      then have "table_rows (sessions (files st2 b')) = table_rows (sessions (files st1 b'))"
        by (simp add: st2 start_session_rows_other)
      with assms rows1 validate_branch_exists_cong[OF b2] snd_eq show ?thesis by simp
    qed
  qed
qed

lemma api_close_registered:
  assumes "\<forall>b'. table_rows (sessions (files st b')) \<noteq> [] \<longrightarrow> validate_branch_exists st b'"
  shows "table_rows (sessions (files (snd (api_close_attendance_session now st sid b teacher_id)) b')) \<noteq> []
         \<longrightarrow> validate_branch_exists (snd (api_close_attendance_session now st sid b teacher_id)) b'"
proof -
  obtain ok st1 where c: "close_session now st sid b teacher_id = (ok, st1)"
    by (cases "close_session now st sid b teacher_id")
  then have eq: "snd (api_close_attendance_session now st sid b teacher_id)
               = snd (close_session now st sid b teacher_id)"
    by (cases ok) (simp_all add: api_close_attendance_session_def)
  have "branches_csv (snd (close_session now st sid b teacher_id)) = branches_csv st" by simp
  from validate_branch_exists_cong[OF this] assms show ?thesis
    by (simp add: eq close_session_rows_empty)
qed

lemma api_get_active_registered:
  assumes "\<forall>b'. table_rows (sessions (files st b')) \<noteq> [] \<longrightarrow> validate_branch_exists st b'"
  shows "table_rows (sessions (files (snd (api_get_active_session now st b)) b')) \<noteq> []
         \<longrightarrow> validate_branch_exists (snd (api_get_active_session now st b)) b'"
proof (cases "validate_branch_exists st b")
  case False
  with assms show ?thesis by (simp add: api_get_active_session_def)
next
  case True
  then have eq: "snd (api_get_active_session now st b) = snd (get_active_session now st b)"
    by (simp add: api_get_active_session_def split: prod.splits)
  have "branches_csv (snd (get_active_session now st b)) = branches_csv st" by simp
  from validate_branch_exists_cong[OF this] assms show ?thesis
    by (simp add: eq get_active_session_rows_empty)
qed

lemma step_registered:
  assumes "\<forall>b'. table_rows (sessions (files st b')) \<noteq> [] \<longrightarrow> validate_branch_exists st b'"
  shows "\<forall>b'. table_rows (sessions (files (step strftime st opn) b')) \<noteq> []
              \<longrightarrow> validate_branch_exists (step strftime st opn) b'"
proof (cases opn)
  case (Start teacher_id b deadline_minutes now)
  with api_start_registered[OF assms] show ?thesis by simp
next
  case (Close sid b teacher_id now)
  with api_close_registered[OF assms] show ?thesis by simp
next
  case (GetActive b now)
  with api_get_active_registered[OF assms] show ?thesis by simp
qed

lemma run_registered:
  "\<forall>b'. table_rows (sessions (files st b')) \<noteq> [] \<longrightarrow> validate_branch_exists st b' \<Longrightarrow>
     \<forall>b'. table_rows (sessions (files (run strftime st ops) b')) \<noteq> []
          \<longrightarrow> validate_branch_exists (run strftime st ops) b'"
proof (induction ops arbitrary: st)
  case Nil
  then show ?case by simp
next
  case (Cons opn ops)
  from Cons.prems
  have "\<forall>b'. table_rows (sessions (files (step strftime st opn) b')) \<noteq> []
              \<longrightarrow> validate_branch_exists (step strftime st opn) b'"
    by (rule step_registered)
  then have "\<forall>b'. table_rows (sessions (files (run strftime (step strftime st opn) ops) b')) \<noteq> []
              \<longrightarrow> validate_branch_exists (run strftime (step strftime st opn) ops) b'"
    by (rule Cons.IH)
  then show ?case by simp
qed

lemma open_session_row:
  "s \<in> set (open_sessions st b) \<Longrightarrow> table_rows (sessions (files st b)) \<noteq> []"
  by (auto simp add: open_sessions_def)

lemma run_conflict:
  assumes "\<forall>b'. table_rows (sessions (files st b')) = []"
      and "s \<in> set (open_sessions (run strftime st ops) b)" and "now < se_deadline_time s"
  shows "fst (api_start_attendance_session strftime now (run strftime st ops) teacher_id b
                deadline_minutes)
           = Inl (HTTP_400 ''There's already an active session for this branch'')"
proof -
  from assms(1)
  have "\<forall>b'. table_rows (sessions (files st b')) \<noteq> [] \<longrightarrow> validate_branch_exists st b'"
    by simp
  then have "\<forall>b'. table_rows (sessions (files (run strftime st ops) b')) \<noteq> []
          \<longrightarrow> validate_branch_exists (run strftime st ops) b'"
    by (rule run_registered)
  with open_session_row[OF assms(2)] have "validate_branch_exists (run strftime st ops) b"
    by blast
  then show ?thesis using assms(2,3) by (rule api_start_conflict)
qed

text \<open>
  Claim C3. The start handler asks for the active session before it starts one. If every
  branch has at most one open session, then so it is after any sequence of start, close
  and get-active requests, whatever their arguments and instants. A start for a
  registered branch that has an open session whose deadline is still ahead is refused
  with status 400, and opens nothing. From a store with no session rows the requests only
  ever start sessions in registered branches, so there every start for a branch with such
  a session is refused with status 400.
\<close>

theorem at_most_one_open_session:
  "((\<forall>b. length (open_sessions st b) \<le> 1) \<longrightarrow>
      (\<forall>b. length (open_sessions (run strftime st ops) b) \<le> 1))
   \<and> (validate_branch_exists st b \<and> (\<exists>s \<in> set (open_sessions st b). now < se_deadline_time s) \<longrightarrow>
        fst (api_start_attendance_session strftime now st teacher_id b deadline_minutes)
          = Inl (HTTP_400 ''There's already an active session for this branch'')
      \<and> length (open_sessions
            (snd (api_start_attendance_session strftime now st teacher_id b deadline_minutes)) b)
          \<le> length (open_sessions st b))
   \<and> ((\<forall>b. table_rows (sessions (files st b)) = [])
        \<and> (\<exists>s \<in> set (open_sessions (run strftime st ops) b). now < se_deadline_time s) \<longrightarrow>
        fst (api_start_attendance_session strftime now (run strftime st ops) teacher_id b
               deadline_minutes)
          = Inl (HTTP_400 ''There's already an active session for this branch''))"
proof (intro conjI impI)
  assume "\<forall>b. length (open_sessions st b) \<le> 1"
  then show "\<forall>b. length (open_sessions (run strftime st ops) b) \<le> 1"
    by (rule run_le)
next
  assume a: "validate_branch_exists st b \<and> (\<exists>s \<in> set (open_sessions st b). now < se_deadline_time s)"
  then obtain s where s: "s \<in> set (open_sessions st b)" "now < se_deadline_time s" by blast
  from a have v: "validate_branch_exists st b" by blast
  show "fst (api_start_attendance_session strftime now st teacher_id b deadline_minutes)
          = Inl (HTTP_400 ''There's already an active session for this branch'')"
    using v s by (rule api_start_conflict)
  have "snd (api_start_attendance_session strftime now st teacher_id b deadline_minutes)
          = snd (get_active_session now st b)"
    using v s by (rule api_start_conflict_store)
  then show "length (open_sessions
            (snd (api_start_attendance_session strftime now st teacher_id b deadline_minutes)) b)
          \<le> length (open_sessions st b)"
    by (simp add: get_active_session_le)
next
  assume c: "(\<forall>b. table_rows (sessions (files st b)) = [])
        \<and> (\<exists>s \<in> set (open_sessions (run strftime st ops) b). now < se_deadline_time s)"
  then obtain s where s: "s \<in> set (open_sessions (run strftime st ops) b)" "now < se_deadline_time s"
    by blast
  from c have fresh: "\<forall>b. table_rows (sessions (files st b)) = []" by blast
  show "fst (api_start_attendance_session strftime now (run strftime st ops) teacher_id b
               deadline_minutes)
          = Inl (HTTP_400 ''There's already an active session for this branch'')"
    using fresh s by (rule run_conflict)
qed

theorem at_most_one_open_session_witness:
  "(\<forall>b. length (open_sessions (sample_store [] []) b) \<le> 1)
   \<and> (\<forall>b. length (open_sessions
                   (run (\<lambda>t. ''20240101_090000'') (sample_store [] [])
                      [Start ''T001'' ''CSH'' 5 0, Start ''T002'' ''CSH'' 5 60000000,
                       GetActive ''CSH'' 400000000, Start ''T002'' ''CSH'' 5 400000000,
                       Close sample_sid ''CSH'' ''T002'' 500000000]) b) \<le> 1)
   \<and> validate_branch_exists (sample_store [sample_session] [event_S1]) ''CSH''
   \<and> sample_session \<in> set (open_sessions (sample_store [sample_session] [event_S1]) ''CSH'')
   \<and> 60000000 < se_deadline_time sample_session
   \<and> fst (api_start_attendance_session (\<lambda>t. ''20240101_090100'') 60000000
             (sample_store [sample_session] [event_S1]) ''T002'' ''CSH'' 5)
       = Inl (HTTP_400 ''There's already an active session for this branch'')
   \<and> (\<forall>b. table_rows (sessions (files (sample_store [] []) b)) = [])
   \<and> open_sessions (run (\<lambda>t. ''20240101_090000'') (sample_store [] [])
                       [Start ''T001'' ''CSH'' 5 0]) ''CSH'' = [sample_session]
   \<and> fst (api_start_attendance_session (\<lambda>t. ''20240101_090000'') 60000000
             (run (\<lambda>t. ''20240101_090000'') (sample_store [] []) [Start ''T001'' ''CSH'' 5 0])
             ''T002'' ''CSH'' 5)
       = Inl (HTTP_400 ''There's already an active session for this branch'')"
proof -
  have no_files_open: "open_sessions (sample_store [] []) b = []" for b
    by (simp add: open_sessions_def sample_store_def no_files_def)
  have h0: "\<forall>b. length (open_sessions (sample_store [] []) b) \<le> 1"
    by (simp add: no_files_open)
  have v: "validate_branch_exists (sample_store [sample_session] [event_S1]) ''CSH''"
    by (simp add: validate_branch_exists_def sample_store_def sample_branches_def)
  have m: "sample_session \<in> set (open_sessions (sample_store [sample_session] [event_S1]) ''CSH'')"
    by (simp add: open_sessions_def sample_session_def)
  have d: "60000000 < se_deadline_time sample_session"
    by (simp add: sample_session_def)
  have ex: "\<exists>s \<in> set (open_sessions (sample_store [sample_session] [event_S1]) ''CSH'').
              60000000 < se_deadline_time s"
    using m d by (rule bexI[rotated])
  note t1 = at_most_one_open_session[where st="sample_store [] []"
      and strftime="\<lambda>t. ''20240101_090000''"
      and ops="[Start ''T001'' ''CSH'' 5 0, Start ''T002'' ''CSH'' 5 60000000,
                GetActive ''CSH'' 400000000, Start ''T002'' ''CSH'' 5 400000000,
                Close sample_sid ''CSH'' ''T002'' 500000000]"]
  note t2 = at_most_one_open_session[where st="sample_store [sample_session] [event_S1]"
      and strftime="\<lambda>t. ''20240101_090100''" and b="''CSH''" and now=60000000
      and teacher_id="''T002''" and deadline_minutes=5]
  note r1 = t1[THEN conjunct1, THEN mp, OF h0]
  note r2 = t2[THEN conjunct2, THEN conjunct1, THEN mp, OF conjI[OF v ex], THEN conjunct1]
  have fresh: "\<forall>b. table_rows (sessions (files (sample_store [] []) b)) = []"
    by (simp add: sample_store_def no_files_def)
  have v0: "validate_branch_exists (sample_store [] []) ''CSH''"
    by (simp add: validate_branch_exists_def sample_store_def sample_branches_def)
  have started: "open_sessions (run (\<lambda>t. ''20240101_090000'') (sample_store [] [])
                       [Start ''T001'' ''CSH'' 5 0]) ''CSH'' = [sample_session]"
    using v0
    by (simp add: api_start_attendance_session_def get_active_session_def start_session_def
          ensure_branch_structure_def generate_session_id_def timedelta_minutes_def
          open_sessions_def sample_session_def sample_sid_def Let_def)
  have ex3: "\<exists>s \<in> set (open_sessions (run (\<lambda>t. ''20240101_090000'') (sample_store [] [])
                       [Start ''T001'' ''CSH'' 5 0]) ''CSH''). 60000000 < se_deadline_time s"
    unfolding started using d by simp
  note t3 = at_most_one_open_session[where st="sample_store [] []"
      and strftime="\<lambda>t. ''20240101_090000''" and ops="[Start ''T001'' ''CSH'' 5 0]"
      and b="''CSH''" and now=60000000 and teacher_id="''T002''" and deadline_minutes=5]
  note r3 = t3[THEN conjunct2, THEN conjunct2, THEN mp, OF conjI[OF fresh ex3]]
  from h0 r1 v m d r2 fresh started r3 show ?thesis by (intro conjI)
qed

section \<open>Looking a session up\<close>

lemma get_session_loop_no_session:
  "get_session_loop st sid branches_df \<noteq> Inr (Some session)"
  by (induction branches_df) (simp_all add: Let_def call_bool_def split: option.splits)

lemma get_session_None:
  "get_session st sid = None"
proof (cases "read_csv (branches_csv st)")
  case None
  then show ?thesis by (simp add: get_session_def)
next
  case (Some branches_df)
  show ?thesis
  proof (cases "get_session_loop st sid branches_df")
    case (Inl e)
    with Some show ?thesis by (simp add: get_session_def)
  next
    case (Inr r)
    then have "r = None"
      by (metis get_session_loop_no_session not_Some_eq)
    with Some Inr show ?thesis by (simp add: get_session_def)
  qed
qed

text \<open>
  Claim C4: \<open>get_session\<close> is to return the record of every session stored in some
  branch's table. It does not. Where a branch has a session file, the call of the bool
  \<open>session.empty\<close> raises and the handler returns \<open>None\<close>; where no branch has one, the
  loop ends with \<open>None\<close>. In the sample store the table of CSH holds the sample session,
  and \<open>get_session\<close> of its id is \<open>None\<close>, as it is of every id in every store.
\<close>

theorem get_session_misses_stored_session:
  "table_rows (sessions (files (sample_store [sample_session] [event_S1]) ''CSH'')) = [sample_session]
   \<and> se_session_id sample_session = sample_sid
   \<and> get_session (sample_store [sample_session] [event_S1]) sample_sid = None
   \<and> (\<forall>st sid. get_session st sid = None)"
proof -
  have rows: "table_rows (sessions (files (sample_store [sample_session] [event_S1]) ''CSH''))
                = [sample_session]"
    by simp
  have sid: "se_session_id sample_session = sample_sid"
    by (simp add: sample_session_def)
  have every: "\<forall>st sid. get_session st sid = None"
    by (simp add: get_session_None)
  then have here: "get_session (sample_store [sample_session] [event_S1]) sample_sid = None"
    by blast
  from rows sid here every show ?thesis by (intro conjI)
qed

section \<open>Marking through the API\<close>

lemma api_mark_attendance_result:
  "api_mark_attendance recognize_face decode_qr_data now st req =
     (if mr_method req \<noteq> ''face'' \<and> mr_method req \<noteq> ''qr''
      then (Inl (HTTP_400 ''Invalid method''), st)
      else (Inl (HTTP_404 ''Session not found''), st))"
  by (simp add: api_mark_attendance_def get_session_None)

lemma api_manual_override_result:
  "api_manual_override now st sid roll new_status teacher_id reason
     = (Inl (HTTP_404 ''Session not found''), st)"
  by (simp add: api_manual_override_def get_session_None)

lemma is_session_active_not_open:
  assumes "filter (\<lambda>s. se_session_id s = sid) (table_rows (sessions (files st b))) = row # rest"
      and "se_status row \<noteq> ''open''"
  shows "is_session_active now st sid b = False"
  using assms by (cases "sessions (files st b)") (simp_all add: is_session_active_def)

lemma is_session_active_expired:
  assumes "filter (\<lambda>s. se_session_id s = sid) (table_rows (sessions (files st b))) = row # rest"
      and "se_deadline_time row \<le> now"
  shows "is_session_active now st sid b = False"
  using assms by (cases "sessions (files st b)") (simp_all add: is_session_active_def)

lemma mark_attendance_found_inactive:
  assumes "\<not> is_session_active now st (mr_session_id req) (se_branch_code session)"
  shows "mark_attendance_found recognize_face decode_qr_data now st req session
           = (Inl (HTTP_400 ''Session is not active or has expired''), st)"
  using assms by (simp add: mark_attendance_found_def Let_def)

text \<open>
  Claim C9, amended. When the row of the session is open and its deadline has passed,
  \<open>is_session_active\<close> is false, so the handler refuses the mark for whatever session record
  the lookup gave it; the request fails, and the store, the row of the session with it, is
  what it was: the check only reads, it closes nothing.
\<close>

theorem mark_after_deadline_leaves_session_open:
  assumes "filter (\<lambda>s. se_session_id s = mr_session_id req) (table_rows (sessions (files st b)))
             = row # rest"
      and "se_status row = ''open''"
      and "se_deadline_time row \<le> now"
  shows "is_session_active now st (mr_session_id req) b = False
       \<and> (\<forall>session. se_branch_code session = b \<longrightarrow>
             mark_attendance_found recognize_face decode_qr_data now st req session
               = (Inl (HTTP_400 ''Session is not active or has expired''), st))
       \<and> isl (fst (api_mark_attendance recognize_face decode_qr_data now st req))
       \<and> snd (api_mark_attendance recognize_face decode_qr_data now st req) = st
       \<and> filter (\<lambda>s. se_session_id s = mr_session_id req)
            (table_rows (sessions (files
               (snd (api_mark_attendance recognize_face decode_qr_data now st req)) b)))
           = row # rest"
proof -
  have inactive: "is_session_active now st (mr_session_id req) b = False"
    using assms(1,3) by (rule is_session_active_expired)
  have found: "\<forall>session. se_branch_code session = b \<longrightarrow>
             mark_attendance_found recognize_face decode_qr_data now st req session
               = (Inl (HTTP_400 ''Session is not active or has expired''), st)"
    using inactive by (auto intro: mark_attendance_found_inactive)
  have fails: "isl (fst (api_mark_attendance recognize_face decode_qr_data now st req))"
    by (simp add: api_mark_attendance_result)
  have same: "snd (api_mark_attendance recognize_face decode_qr_data now st req) = st"
    by (simp add: api_mark_attendance_result)
  from inactive found fails same assms(1) show ?thesis by simp
qed

theorem mark_after_deadline_leaves_session_open_witness:
  "filter (\<lambda>s. se_session_id s = mr_session_id qr_request)
     (table_rows (sessions (files (sample_store [sample_session] [event_S1]) ''CSH'')))
     = [sample_session]
   \<and> se_status sample_session = ''open''
   \<and> se_deadline_time sample_session \<le> 360000000
   \<and> is_session_active 360000000 (sample_store [sample_session] [event_S1])
         (mr_session_id qr_request) ''CSH'' = False
   \<and> mark_attendance_found adapter_S1 adapter_S1 360000000 (sample_store [sample_session] [event_S1])
         qr_request sample_session
       = (Inl (HTTP_400 ''Session is not active or has expired''),
          sample_store [sample_session] [event_S1])
   \<and> isl (fst (api_mark_attendance adapter_S1 adapter_S1 360000000
                  (sample_store [sample_session] [event_S1]) qr_request))
   \<and> snd (api_mark_attendance adapter_S1 adapter_S1 360000000
             (sample_store [sample_session] [event_S1]) qr_request)
       = sample_store [sample_session] [event_S1]"
proof -
  have h1: "filter (\<lambda>s. se_session_id s = mr_session_id qr_request)
              (table_rows (sessions (files (sample_store [sample_session] [event_S1]) ''CSH'')))
              = [sample_session]"
    by (simp add: qr_request_def sample_session_def)
  have h2: "se_status sample_session = ''open''"
    by (simp add: sample_session_def)
  have h3: "se_deadline_time sample_session \<le> 360000000"
    by (simp add: sample_session_def)
  have br: "se_branch_code sample_session = ''CSH''"
    by (simp add: sample_session_def)
  note t = mark_after_deadline_leaves_session_open[OF h1 h2 h3,
      where recognize_face=adapter_S1 and decode_qr_data=adapter_S1]
  note a = t[THEN conjunct1]
  note b = t[THEN conjunct2, THEN conjunct1, THEN spec, THEN mp, OF br]
  note c = t[THEN conjunct2, THEN conjunct2, THEN conjunct1]
  note d = t[THEN conjunct2, THEN conjunct2, THEN conjunct2, THEN conjunct1]
  from h1 h2 h3 a b c d show ?thesis by (intro conjI)
qed

text \<open>
  The claim as stated fails: one minute after the deadline of the sample session the mark
  is refused and the stored status is still open.
\<close>

theorem mark_after_deadline_counterexample:
  "se_status sample_session = ''open''
   \<and> se_deadline_time sample_session \<le> 360000000
   \<and> sessions (files (snd (api_mark_attendance adapter_S1 adapter_S1 360000000
                             (sample_store [sample_session] [event_S1]) qr_request)) ''CSH'')
       = Table [sample_session]
   \<and> sessions (files (snd (mark_attendance_found adapter_S1 adapter_S1 360000000
                             (sample_store [sample_session] [event_S1]) qr_request sample_session))
                 ''CSH'')
       = Table [sample_session]"
proof -
  have h1: "filter (\<lambda>s. se_session_id s = mr_session_id qr_request)
              (table_rows (sessions (files (sample_store [sample_session] [event_S1]) ''CSH'')))
              = [sample_session]"
    by (simp add: qr_request_def sample_session_def)
  have h3: "se_deadline_time sample_session \<le> 360000000"
    by (simp add: sample_session_def)
  have "is_session_active 360000000 (sample_store [sample_session] [event_S1])
          (mr_session_id qr_request) ''CSH'' = False"
    using h1 h3 by (rule is_session_active_expired)
  then have "\<not> is_session_active 360000000 (sample_store [sample_session] [event_S1])
          (mr_session_id qr_request) (se_branch_code sample_session)"
    by (simp add: sample_session_def)
  then have found: "mark_attendance_found adapter_S1 adapter_S1 360000000
                      (sample_store [sample_session] [event_S1]) qr_request sample_session
                    = (Inl (HTTP_400 ''Session is not active or has expired''),
                       sample_store [sample_session] [event_S1])"
    by (rule mark_attendance_found_inactive)
  have c1: "se_status sample_session = ''open''"
    by (simp add: sample_session_def)
  have c3: "sessions (files (snd (api_mark_attendance adapter_S1 adapter_S1 360000000
                             (sample_store [sample_session] [event_S1]) qr_request)) ''CSH'')
       = Table [sample_session]"
    by (simp add: api_mark_attendance_result)
  have c4: "sessions (files (snd (mark_attendance_found adapter_S1 adapter_S1 360000000
                             (sample_store [sample_session] [event_S1]) qr_request sample_session))
                 ''CSH'')
       = Table [sample_session]"
    by (simp add: found)
  from c1 h3 c3 c4 show ?thesis by (intro conjI)
qed

text \<open>
  Claim C2: once the stored status is closed, a mark is to fail as not open, and the
  override is to stay available. For a closed row \<open>is_session_active\<close> is false at every
  instant, but neither handler gets that far: \<open>get_session\<close> returns \<open>None\<close>, so the mark
  is answered with 404, session not found, and so is the override.
\<close>

theorem closed_session_mark_not_found:
  "se_status (sample_session\<lparr>se_status := ''closed''\<rparr>) = ''closed''
   \<and> is_session_active 120000000
         (sample_store [sample_session\<lparr>se_status := ''closed''\<rparr>] [event_S1]) sample_sid ''CSH''
       = False
   \<and> api_mark_attendance adapter_S1 adapter_S1 120000000
         (sample_store [sample_session\<lparr>se_status := ''closed''\<rparr>] [event_S1]) qr_request
       = (Inl (HTTP_404 ''Session not found''),
          sample_store [sample_session\<lparr>se_status := ''closed''\<rparr>] [event_S1])
   \<and> api_manual_override 400000000
         (sample_store [sample_session\<lparr>se_status := ''closed''\<rparr>] [event_S1])
         sample_sid ''S2'' ''Present'' ''T001'' None
       = (Inl (HTTP_404 ''Session not found''),
          sample_store [sample_session\<lparr>se_status := ''closed''\<rparr>] [event_S1])"
proof -
  have "filter (\<lambda>s. se_session_id s = sample_sid)
          (table_rows (sessions (files
             (sample_store [sample_session\<lparr>se_status := ''closed''\<rparr>] [event_S1]) ''CSH'')))
        = [sample_session\<lparr>se_status := ''closed''\<rparr>]"
    by (simp add: sample_session_def)
  moreover have "se_status (sample_session\<lparr>se_status := ''closed''\<rparr>) \<noteq> ''open''"
    by simp
  ultimately have "is_session_active 120000000
         (sample_store [sample_session\<lparr>se_status := ''closed''\<rparr>] [event_S1]) sample_sid ''CSH''
       = False"
    by (rule is_session_active_not_open)
  then show ?thesis
    by (simp add: api_mark_attendance_result api_manual_override_result qr_request_def)
qed

section \<open>Marking twice\<close>

lemma ensure_branch_structure_tables:
  "students (files st b) = Table x \<Longrightarrow> students (files (ensure_branch_structure st b) b) = Table x"
  "attendance (files st b) = Table y \<Longrightarrow> attendance (files (ensure_branch_structure st b) b) = Table y"
  by (simp_all add: ensure_branch_structure_def Let_def)

lemma mark_attendance_appends:
  assumes "students (files st b) = Table students_df"
      and "attendance (files st b) = Table attendance_df"
      and "roll \<in> set (map stu_roll_no students_df)"
  shows "fst (mark_attendance now st sid roll b via marked_by) = True"
    and "attendance (files (snd (mark_attendance now st sid roll b via marked_by)) b) =
           Table (attendance_df @
                  [\<lparr>ev_session_id = sid, ev_roll_no = roll,
                    ev_name = stu_name (hd (filter (\<lambda>s. stu_roll_no s = roll) students_df)),
                    ev_status = ''Present'', ev_marked_at = now, ev_method = via,
                    ev_marked_by = marked_by\<rparr>])"
proof -
  from assms(3) obtain s ss where f: "filter (\<lambda>s. stu_roll_no s = roll) students_df = s # ss"
    by (cases "filter (\<lambda>s. stu_roll_no s = roll) students_df") (auto simp: filter_empty_conv)
  note e = ensure_branch_structure_tables(1)[OF assms(1)] ensure_branch_structure_tables(2)[OF assms(2)]
  show "fst (mark_attendance now st sid roll b via marked_by) = True"
    using e f by (simp add: mark_attendance_def Let_def)
  show "attendance (files (snd (mark_attendance now st sid roll b via marked_by)) b) =
           Table (attendance_df @
                  [\<lparr>ev_session_id = sid, ev_roll_no = roll,
                    ev_name = stu_name (hd (filter (\<lambda>s. stu_roll_no s = roll) students_df)),
                    ev_status = ''Present'', ev_marked_at = now, ev_method = via,
                    ev_marked_by = marked_by\<rparr>])"
    using e f by (simp add: mark_attendance_def Let_def)
qed

lemma mark_attendance_events:
  assumes "students (files st b) = Table students_df"
      and "attendance (files st b) = Table attendance_df"
      and "roll \<in> set (map stu_roll_no students_df)"
  shows "events_of (snd (mark_attendance now st sid roll b via marked_by)) b sid roll =
           events_of st b sid roll @
             [\<lparr>ev_session_id = sid, ev_roll_no = roll,
               ev_name = stu_name (hd (filter (\<lambda>s. stu_roll_no s = roll) students_df)),
               ev_status = ''Present'', ev_marked_at = now, ev_method = via,
               ev_marked_by = marked_by\<rparr>]"
  using mark_attendance_appends(2)[OF assms, of now sid via marked_by] assms(2)
  by (simp add: events_of_def)





text \<open>
  Claim C1: a second mark for a pair is to be answered as already marked, the stored event
  unchanged and no second one written. In the sample store S1 is marked and the session
  is active. The API answers the mark with 404, session not found, since \<open>get_session\<close>
  returns \<open>None\<close>. \<open>DataService.mark_attendance\<close> for the same pair returns true and
  appends a second event. And the handler, given the session, checks the roll number of
  the form, not the one the adapter identifies: with no roll number in the form it reports
  success and S1 has two events.
\<close>

theorem mark_twice_duplicates:
  "is_already_marked (sample_store [sample_session] [event_S1]) sample_sid ''S1'' ''CSH''
   \<and> is_session_active 120000000 (sample_store [sample_session] [event_S1]) sample_sid ''CSH''
   \<and> api_mark_attendance adapter_S1 adapter_S1 120000000 (sample_store [sample_session] [event_S1])
         qr_request
       = (Inl (HTTP_404 ''Session not found''), sample_store [sample_session] [event_S1])
   \<and> fst (mark_attendance 120000000 (sample_store [sample_session] [event_S1]) sample_sid ''S1''
             ''CSH'' ''qr'' ''student'') = True
   \<and> length (events_of
               (snd (mark_attendance 120000000 (sample_store [sample_session] [event_S1])
                       sample_sid ''S1'' ''CSH'' ''qr'' ''student''))
               ''CSH'' sample_sid ''S1'') = 2
   \<and> (\<exists>response.
         fst (mark_attendance_found adapter_S1 adapter_S1 120000000
                (sample_store [sample_session] [event_S1]) qr_request_no_roll sample_session)
           = Inr response
         \<and> success response \<and> \<not> already_marked response)
   \<and> length (events_of
               (snd (mark_attendance_found adapter_S1 adapter_S1 120000000
                       (sample_store [sample_session] [event_S1]) qr_request_no_roll sample_session))
               ''CSH'' sample_sid ''S1'') = 2"
proof -
  have h1: "students (files (sample_store [sample_session] [event_S1]) ''CSH'')
              = Table [student_S1, student_S2]"
    by simp
  have h2: "attendance (files (sample_store [sample_session] [event_S1]) ''CSH'') = Table [event_S1]"
    by simp
  have h3: "''S1'' \<in> set (map stu_roll_no [student_S1, student_S2])"
    by (simp add: student_S1_def)
  have c1: "is_already_marked (sample_store [sample_session] [event_S1]) sample_sid ''S1'' ''CSH''"
    by (simp add: is_already_marked_def event_S1_def)
  have c2: "is_session_active 120000000 (sample_store [sample_session] [event_S1]) sample_sid ''CSH''"
    by (simp add: is_session_active_def sample_session_def)
  have c3: "api_mark_attendance adapter_S1 adapter_S1 120000000
              (sample_store [sample_session] [event_S1]) qr_request
            = (Inl (HTTP_404 ''Session not found''), sample_store [sample_session] [event_S1])"
    by (simp add: api_mark_attendance_result qr_request_def)
  have c4: "fst (mark_attendance 120000000 (sample_store [sample_session] [event_S1]) sample_sid ''S1''
             ''CSH'' ''qr'' ''student'') = True"
    using h1 h2 h3 by (rule mark_attendance_appends(1))
  have e0: "events_of (sample_store [sample_session] [event_S1]) ''CSH'' sample_sid ''S1'' = [event_S1]"
    by (simp add: events_of_def event_S1_def)
  have c5: "length (events_of
               (snd (mark_attendance 120000000 (sample_store [sample_session] [event_S1])
                       sample_sid ''S1'' ''CSH'' ''qr'' ''student''))
               ''CSH'' sample_sid ''S1'') = 2"
    by (simp add: mark_attendance_events[OF h1 h2 h3] e0)
  have not_marked_empty:
    "\<not> is_already_marked (sample_store [sample_session] [event_S1]) sample_sid [] ''CSH''"
    by (simp add: is_already_marked_def event_S1_def)
  have act: "is_session_active 120000000 (sample_store [sample_session] [event_S1])
               (mr_session_id qr_request_no_roll) (se_branch_code sample_session)"
    using c2 by (simp add: qr_request_no_roll_def sample_session_def)
  have found: "mark_attendance_found adapter_S1 adapter_S1 120000000
                 (sample_store [sample_session] [event_S1]) qr_request_no_roll sample_session
               = (Inr \<lparr>success = True, message = ''Attendance marked for '' @ ''S1'',
                        already_marked = False, marked_at = Some 120000000,
                        response_method = Some ''qr''\<rparr>,
                  snd (mark_attendance 120000000 (sample_store [sample_session] [event_S1])
                         sample_sid ''S1'' ''CSH'' ''qr'' ''student''))"
    using act not_marked_empty
    by (simp add: mark_attendance_found_def Let_def qr_request_no_roll_def adapter_S1_def
          sample_session_def)
  have c6: "\<exists>response.
         fst (mark_attendance_found adapter_S1 adapter_S1 120000000
                (sample_store [sample_session] [event_S1]) qr_request_no_roll sample_session)
           = Inr response
         \<and> success response \<and> \<not> already_marked response"
    by (simp add: found)
  have c7: "length (events_of
               (snd (mark_attendance_found adapter_S1 adapter_S1 120000000
                       (sample_store [sample_session] [event_S1]) qr_request_no_roll sample_session))
               ''CSH'' sample_sid ''S1'') = 2"
    by (simp only: found snd_conv c5)
  from c1 c2 c3 c4 c5 c6 c7 show ?thesis by (intro conjI)
qed


end
